theory Spec2Isabelle
  imports Complex_Main
begin

section \<open>Floating-point cells\<close>

text \<open>
  The grids of \<^verbatim>\<open>alan_tools/alan_tile.py\<close> are numpy arrays of floats. A cell is a NaN, an
  infinity, or a finite number. The special values follow IEEE 754 as numpy computes them
  with its default error state (division by zero and invalid operations give a value and
  a warning, never an exception). Finite sums, products and quotients are exact real
  arithmetic: their rounding and the sign of zero are not modelled, and a non-zero number
  divided by zero gives the infinity with the sign of the numerator. The exponential is
  modelled with the three places where the float64 result leaves the exact value
  altogether: underflow to zero, overflow to infinity, and rounding to exactly one.
\<close>

datatype fl = NaN | PInf | NInf | Fin real

fun fl_isnan :: "fl \<Rightarrow> bool" where
  "fl_isnan NaN = True"
| "fl_isnan _ = False"

fun fl_isinf :: "fl \<Rightarrow> bool" where
  "fl_isinf PInf = True"
| "fl_isinf NInf = True"
| "fl_isinf _ = False"

fun fl_add :: "fl \<Rightarrow> fl \<Rightarrow> fl" where
  "fl_add NaN _ = NaN"
| "fl_add _ NaN = NaN"
| "fl_add PInf NInf = NaN"
| "fl_add NInf PInf = NaN"
| "fl_add PInf _ = PInf"
| "fl_add _ PInf = PInf"
| "fl_add NInf _ = NInf"
| "fl_add _ NInf = NInf"
| "fl_add (Fin a) (Fin b) = Fin (a + b)"

fun fl_mul :: "fl \<Rightarrow> fl \<Rightarrow> fl" where
  "fl_mul NaN _ = NaN"
| "fl_mul _ NaN = NaN"
| "fl_mul (Fin a) (Fin b) = Fin (a * b)"
| "fl_mul (Fin a) PInf = (if a = 0 then NaN else if 0 < a then PInf else NInf)"
| "fl_mul (Fin a) NInf = (if a = 0 then NaN else if 0 < a then NInf else PInf)"
| "fl_mul PInf (Fin b) = (if b = 0 then NaN else if 0 < b then PInf else NInf)"
| "fl_mul NInf (Fin b) = (if b = 0 then NaN else if 0 < b then NInf else PInf)"
| "fl_mul PInf PInf = PInf"
| "fl_mul PInf NInf = NInf"
| "fl_mul NInf PInf = NInf"
| "fl_mul NInf NInf = PInf"

fun fl_div :: "fl \<Rightarrow> fl \<Rightarrow> fl" where
  "fl_div NaN _ = NaN"
| "fl_div _ NaN = NaN"
| "fl_div (Fin a) (Fin b) =
     (if b = 0 then (if a = 0 then NaN else if 0 < a then PInf else NInf)
      else Fin (a / b))"
| "fl_div (Fin a) PInf = Fin 0"
| "fl_div (Fin a) NInf = Fin 0"
| "fl_div PInf (Fin b) = (if 0 \<le> b then PInf else NInf)"
| "fl_div NInf (Fin b) = (if 0 \<le> b then NInf else PInf)"
| "fl_div PInf PInf = NaN"
| "fl_div PInf NInf = NaN"
| "fl_div NInf PInf = NaN"
| "fl_div NInf NInf = NaN"

text \<open>
  \<^verbatim>\<open>np.exp\<close> on float64. The result is zero where the exact exponential is at most 2 to
  the power -1075, half the smallest positive float64 (arguments up to -1075 ln 2, about
  -745.13). It is infinite where the exact exponential reaches 2 to the power 1024
  (arguments from 1024 ln 2, about 709.78). It is exactly one where the exact exponential
  rounds to one (arguments from -1/2^54 up to, but not including, 1/2^53). Elsewhere it is
  the exact exponential.
\<close>

fun fl_exp :: "fl \<Rightarrow> fl" where
  "fl_exp NaN = NaN"
| "fl_exp PInf = PInf"
| "fl_exp NInf = Fin 0"
| "fl_exp (Fin a) =
     (if a \<le> - 1075 * ln 2 then Fin 0
      else if 1024 * ln 2 \<le> a then PInf
      else if - 1 / 2 ^ 54 \<le> a \<and> a < 1 / 2 ^ 53 then Fin 1
      else Fin (exp a))"

text \<open>\<^verbatim>\<open>np.log\<close>: the logarithm of a negative number is NaN, of zero minus infinity.\<close>

fun fl_log :: "fl \<Rightarrow> fl" where
  "fl_log NaN = NaN"
| "fl_log PInf = PInf"
| "fl_log NInf = NaN"
| "fl_log (Fin a) = (if a < 0 then NaN else if a = 0 then NInf else Fin (ln a))"

text \<open>Comparisons: every ordered comparison with a NaN is false, \<^verbatim>\<open>!=\<close> with a NaN is
  true.\<close>

fun fl_le :: "fl \<Rightarrow> fl \<Rightarrow> bool" where
  "fl_le NaN _ = False"
| "fl_le _ NaN = False"
| "fl_le NInf _ = True"
| "fl_le _ PInf = True"
| "fl_le PInf _ = False"
| "fl_le _ NInf = False"
| "fl_le (Fin a) (Fin b) = (a \<le> b)"

fun fl_gt :: "fl \<Rightarrow> fl \<Rightarrow> bool" where
  "fl_gt NaN _ = False"
| "fl_gt _ NaN = False"
| "fl_gt NInf _ = False"
| "fl_gt _ PInf = False"
| "fl_gt PInf _ = True"
| "fl_gt _ NInf = True"
| "fl_gt (Fin a) (Fin b) = (b < a)"

fun fl_eq :: "fl \<Rightarrow> fl \<Rightarrow> bool" where
  "fl_eq NaN _ = False"
| "fl_eq _ NaN = False"
| "fl_eq x y = (x = y)"

definition fl_ne :: "fl \<Rightarrow> fl \<Rightarrow> bool" where
  "fl_ne x y = (\<not> fl_eq x y)"

section \<open>Arrays\<close>

text \<open>
  A two-dimensional numpy array is the list of its rows. An elementwise operation of two
  arrays is defined on arrays of one shape; the callers below check the shapes where the
  source can meet arrays of different shapes.
\<close>

type_synonym ndarray = "fl list list"

definition shape :: "'a list list \<Rightarrow> nat list" where
  "shape A = map length A"

definition ew1 :: "('a \<Rightarrow> 'b) \<Rightarrow> 'a list list \<Rightarrow> 'b list list" where
  "ew1 f A = map (map f) A"

definition ew2 :: "('a \<Rightarrow> 'b \<Rightarrow> 'c) \<Rightarrow> 'a list list \<Rightarrow> 'b list list \<Rightarrow> 'c list list" where
  "ew2 f A B = map (\<lambda>(r, s). map (\<lambda>(x, y). f x y) (zip r s)) (zip A B)"

text \<open>\<^verbatim>\<open>np.where(cond, x, y)\<close> with a scalar first and with a scalar last.\<close>

definition np_where_sa :: "bool list list \<Rightarrow> fl \<Rightarrow> ndarray \<Rightarrow> ndarray" where
  "np_where_sa c x Y = ew2 (\<lambda>b y. if b then x else y) c Y"

definition np_where_as :: "bool list list \<Rightarrow> ndarray \<Rightarrow> fl \<Rightarrow> ndarray" where
  "np_where_as c X y = ew2 (\<lambda>b x. if b then x else y) c X"

section \<open>Configuration\<close>

text \<open>
  The module \<^verbatim>\<open>alan_tools/config.py\<close> holds the calibration constants, the thresholds and
  the fill value. The record below carries them; every definition that reads a constant
  takes the record.
\<close>

record config =
  M_BLUE :: fl
  C_BLUE :: fl
  M_GREEN :: fl
  C_GREEN :: fl
  M_RED :: fl
  C_RED :: fl
  THRESH_IRR_TOTAL_UW_M2 :: fl
  FALCHI_MASK_THRESHOLD :: fl
  KD_FILLVAL :: fl

section \<open>Brightness masking and the attenuation fill value\<close>

text \<open>\<^verbatim>\<open>ALANTile.mask_falchi\<close>:
  \<^verbatim>\<open>np.where(falchi_regridded <= cfg.FALCHI_MASK_THRESHOLD, np.nan, falchi_regridded)\<close>.\<close>

definition mask_falchi :: "config \<Rightarrow> ndarray \<Rightarrow> ndarray" where
  "mask_falchi cfg falchi_regridded =
     np_where_sa (ew1 (\<lambda>x. fl_le x (FALCHI_MASK_THRESHOLD cfg)) falchi_regridded)
       NaN falchi_regridded"

text \<open>
  The attenuation file stores its variables with an element type, float32 or float64. A
  comparison of such a variable with a Python float is made in the element type of the
  variable: numpy converts the scalar to that type first, which for float32 rounds it to
  the nearest float32 (ties to even; 24 significant bits, exponents from -126 to 127, and
  steps of 2 to the power -149 below 2 to the power -126).
\<close>

datatype dtype = Float32 | Float64

definition rne :: "real \<Rightarrow> int" where
  "rne x =
     (let f = \<lfloor>x\<rfloor>; d = x - of_int f
      in if d < 1 / 2 then f else if 1 / 2 < d then f + 1 else if even f then f else f + 1)"

text \<open>The binary exponent of a positive number, between -126 and 127: the search runs down
  from 127 and ends at -126.\<close>

fun f32_exponent_from :: "real \<Rightarrow> nat \<Rightarrow> int" where
  "f32_exponent_from a 0 = - 126"
| "f32_exponent_from a (Suc n) =
     (if 2 powi (int (Suc n) - 126) \<le> a then int (Suc n) - 126 else f32_exponent_from a n)"

definition f32_exponent :: "real \<Rightarrow> int" where
  "f32_exponent a = f32_exponent_from a 253"

definition round_f32 :: "real \<Rightarrow> fl" where
  "round_f32 x =
     (let a = \<bar>x\<bar>;
          q = 2 powi (f32_exponent a - 23);
          r = of_int (rne (a / q)) * q
      in if 2 powi 128 \<le> r then (if x < 0 then NInf else PInf)
         else Fin (if x < 0 then - r else r))"

fun astype :: "dtype \<Rightarrow> fl \<Rightarrow> fl" where
  "astype Float32 (Fin a) = round_f32 a"
| "astype _ x = x"

text \<open>
  \<^verbatim>\<open>ALANTile.get_kd_data\<close> opens the file, selects the region of interest and ends with
  \<^verbatim>\<open>kd_roi.where(kd_roi != cfg.KD_FILLVAL)\<close>; xarray's \<^verbatim>\<open>where\<close> keeps a cell where the
  condition holds and writes NaN elsewhere. The three channels of the selected dataset are
  the fields of a record, the dataset read from the file has the element type of its
  variables as well, and \<open>get_kd_data\<close> is the last step on the selected dataset.
  \<^verbatim>\<open>KD_FILLVAL\<close> is a Python float.
\<close>

record kd =
  kd_blue :: ndarray
  kd_green :: ndarray
  kd_red :: ndarray

record kd_dataset = kd +
  kd_dtype :: dtype

definition xr_where :: "bool list list \<Rightarrow> ndarray \<Rightarrow> ndarray" where
  "xr_where c X = np_where_as c X NaN"

definition get_kd_data :: "config \<Rightarrow> kd_dataset \<Rightarrow> kd_dataset" where
  "get_kd_data cfg kd_roi =
     (let fillval = astype (kd_dtype kd_roi) (KD_FILLVAL cfg) in
      \<lparr> kd_blue = xr_where (ew1 (\<lambda>x. fl_ne x fillval) (kd_blue kd_roi)) (kd_blue kd_roi),
        kd_green = xr_where (ew1 (\<lambda>x. fl_ne x fillval) (kd_green kd_roi)) (kd_green kd_roi),
        kd_red = xr_where (ew1 (\<lambda>x. fl_ne x fillval) (kd_red kd_roi)) (kd_red kd_roi),
        kd_dtype = kd_dtype kd_roi \<rparr>)"

section \<open>Critical depth\<close>

datatype error = ValueError | IndexError | KeyError | TypeError | OSError

text \<open>
  \<^verbatim>\<open>ALANTile.calculate_z_thresh\<close>, one definition for each array the method assigns, in the
  order of the source. \<open>falchi_masked\<close> is the masked brightness and \<open>kd_regridded\<close> the
  three attenuation arrays on the target grid.
\<close>

definition sfce_irr_blue_uW_m2 :: "config \<Rightarrow> ndarray \<Rightarrow> ndarray" where
  "sfce_irr_blue_uW_m2 cfg falchi_masked =
     ew1 (\<lambda>x. fl_add x (C_BLUE cfg)) (ew1 (fl_mul (M_BLUE cfg)) falchi_masked)"

definition sfce_irr_green_uW_m2 :: "config \<Rightarrow> ndarray \<Rightarrow> ndarray" where
  "sfce_irr_green_uW_m2 cfg falchi_masked =
     ew1 (\<lambda>x. fl_add x (C_GREEN cfg)) (ew1 (fl_mul (M_GREEN cfg)) falchi_masked)"

definition sfce_irr_red_uW_m2 :: "config \<Rightarrow> ndarray \<Rightarrow> ndarray" where
  "sfce_irr_red_uW_m2 cfg falchi_masked =
     ew1 (\<lambda>x. fl_add x (C_RED cfg)) (ew1 (fl_mul (M_RED cfg)) falchi_masked)"

definition sfce_irr_total_uW_m2 :: "config \<Rightarrow> ndarray \<Rightarrow> ndarray" where
  "sfce_irr_total_uW_m2 cfg falchi_masked =
     ew2 fl_add
       (ew2 fl_add (sfce_irr_blue_uW_m2 cfg falchi_masked) (sfce_irr_green_uW_m2 cfg falchi_masked))
       (sfce_irr_red_uW_m2 cfg falchi_masked)"

definition R_blue :: "config \<Rightarrow> ndarray \<Rightarrow> ndarray" where
  "R_blue cfg falchi_masked =
     ew2 fl_div (sfce_irr_blue_uW_m2 cfg falchi_masked) (sfce_irr_total_uW_m2 cfg falchi_masked)"

definition R_green :: "config \<Rightarrow> ndarray \<Rightarrow> ndarray" where
  "R_green cfg falchi_masked =
     ew2 fl_div (sfce_irr_green_uW_m2 cfg falchi_masked) (sfce_irr_total_uW_m2 cfg falchi_masked)"

definition R_red :: "config \<Rightarrow> ndarray \<Rightarrow> ndarray" where
  "R_red cfg falchi_masked =
     ew2 fl_div (sfce_irr_red_uW_m2 cfg falchi_masked) (sfce_irr_total_uW_m2 cfg falchi_masked)"

definition Kd_log_expression :: "config \<Rightarrow> ndarray \<Rightarrow> kd \<Rightarrow> ndarray" where
  "Kd_log_expression cfg falchi_masked kd_regridded =
     ew2 fl_add
       (ew2 fl_add
          (ew2 fl_mul (R_blue cfg falchi_masked)
             (ew1 fl_exp (ew1 (fl_mul (Fin (- 1))) (kd_blue kd_regridded))))
          (ew2 fl_mul (R_green cfg falchi_masked)
             (ew1 fl_exp (ew1 (fl_mul (Fin (- 1))) (kd_green kd_regridded)))))
       (ew2 fl_mul (R_red cfg falchi_masked)
          (ew1 fl_exp (ew1 (fl_mul (Fin (- 1))) (kd_red kd_regridded))))"

text \<open>The first assignment of \<^verbatim>\<open>Kd_total\<close>: the logarithm is taken at every cell
  (\<^verbatim>\<open>np.where\<close> evaluates both branches) and kept where the argument is positive and
  not a NaN.\<close>

definition Kd_total_log :: "config \<Rightarrow> ndarray \<Rightarrow> kd \<Rightarrow> ndarray" where
  "Kd_total_log cfg falchi_masked kd_regridded =
     (let e = Kd_log_expression cfg falchi_masked kd_regridded in
      np_where_as
        (ew2 (\<and>) (ew1 (\<lambda>x. fl_gt x (Fin 0)) e) (ew1 Not (ew1 fl_isnan e)))
        (ew1 (fl_mul (Fin (- 1))) (ew1 fl_log e))
        NaN)"

text \<open>The second assignment:
  \<^verbatim>\<open>Kd_total = np.where(Kd_total > 0.0, Kd_total, np.nan)\<close>.\<close>

definition Kd_total :: "config \<Rightarrow> ndarray \<Rightarrow> kd \<Rightarrow> ndarray" where
  "Kd_total cfg falchi_masked kd_regridded =
     (let k = Kd_total_log cfg falchi_masked kd_regridded in
      np_where_as (ew1 (\<lambda>x. fl_gt x (Fin 0)) k) k NaN)"

text \<open>\<^verbatim>\<open>z_thresh\<close> before the land mask.\<close>

definition z_thresh_sea :: "config \<Rightarrow> ndarray \<Rightarrow> kd \<Rightarrow> ndarray" where
  "z_thresh_sea cfg falchi_masked kd_regridded =
     ew2 fl_mul
       (ew1 (fl_div (Fin (- 1))) (Kd_total cfg falchi_masked kd_regridded))
       (ew1 fl_log
          (ew1 (fl_div (THRESH_IRR_TOTAL_UW_M2 cfg)) (sfce_irr_total_uW_m2 cfg falchi_masked)))"

text \<open>
  \<^verbatim>\<open>ALANTile.apply_landmask\<close>. The land/sea grid holds integer codes, 255 for the sea.
  \<^verbatim>\<open>masked_arr[land_mask] = np.nan\<close> writes NaN into a copy of the input where the mask
  holds; numpy raises IndexError when the mask and the array differ in shape.
\<close>

definition apply_landmask :: "int list list \<Rightarrow> ndarray \<Rightarrow> error + ndarray" where
  "apply_landmask landmask in_arr =
     (let land_mask = ew1 Not (ew1 (\<lambda>c. c = 255) landmask) in
      if shape land_mask = shape in_arr
      then Inr (ew2 (\<lambda>b x. if b then NaN else x) land_mask in_arr)
      else Inl IndexError)"

text \<open>
  The whole method. The brightness and the three attenuation arrays are produced on one
  meshgrid and have one shape; arrays of different shapes give ValueError here (numpy
  raises it when the shapes cannot be broadcast).
\<close>

definition same_shape :: "ndarray \<Rightarrow> kd \<Rightarrow> bool" where
  "same_shape falchi_masked kd_regridded =
     (shape (kd_blue kd_regridded) = shape falchi_masked \<and>
      shape (kd_green kd_regridded) = shape falchi_masked \<and>
      shape (kd_red kd_regridded) = shape falchi_masked)"

definition calculate_z_thresh :: "config \<Rightarrow> int list list \<Rightarrow> ndarray \<Rightarrow> kd \<Rightarrow> error + ndarray" where
  "calculate_z_thresh cfg landmask falchi_masked kd_regridded =
     (if same_shape falchi_masked kd_regridded
      then apply_landmask landmask (z_thresh_sea cfg falchi_masked kd_regridded)
      else Inl ValueError)"

text \<open>The value of each array at one cell, as a function of the inputs at that cell.\<close>

definition cell_blue :: "config \<Rightarrow> fl \<Rightarrow> fl" where
  "cell_blue cfg b = fl_add (fl_mul (M_BLUE cfg) b) (C_BLUE cfg)"

definition cell_green :: "config \<Rightarrow> fl \<Rightarrow> fl" where
  "cell_green cfg b = fl_add (fl_mul (M_GREEN cfg) b) (C_GREEN cfg)"

definition cell_red :: "config \<Rightarrow> fl \<Rightarrow> fl" where
  "cell_red cfg b = fl_add (fl_mul (M_RED cfg) b) (C_RED cfg)"

definition cell_total :: "config \<Rightarrow> fl \<Rightarrow> fl" where
  "cell_total cfg b = fl_add (fl_add (cell_blue cfg b) (cell_green cfg b)) (cell_red cfg b)"

definition cell_log_expression :: "config \<Rightarrow> fl \<Rightarrow> fl \<Rightarrow> fl \<Rightarrow> fl \<Rightarrow> fl" where
  "cell_log_expression cfg b kb kg kr =
     fl_add
       (fl_add
          (fl_mul (fl_div (cell_blue cfg b) (cell_total cfg b)) (fl_exp (fl_mul (Fin (- 1)) kb)))
          (fl_mul (fl_div (cell_green cfg b) (cell_total cfg b)) (fl_exp (fl_mul (Fin (- 1)) kg))))
       (fl_mul (fl_div (cell_red cfg b) (cell_total cfg b)) (fl_exp (fl_mul (Fin (- 1)) kr)))"

definition guard_log :: "fl \<Rightarrow> fl" where
  "guard_log e = (if fl_gt e (Fin 0) \<and> \<not> fl_isnan e then fl_mul (Fin (- 1)) (fl_log e) else NaN)"

definition guard_pos :: "fl \<Rightarrow> fl" where
  "guard_pos k = (if fl_gt k (Fin 0) then k else NaN)"

definition cell_z :: "config \<Rightarrow> fl \<Rightarrow> fl \<Rightarrow> fl \<Rightarrow> fl \<Rightarrow> fl" where
  "cell_z cfg b kb kg kr =
     fl_mul
       (fl_div (Fin (- 1)) (guard_pos (guard_log (cell_log_expression cfg b kb kg kr))))
       (fl_log (fl_div (THRESH_IRR_TOTAL_UW_M2 cfg) (cell_total cfg b)))"

section \<open>Regridding\<close>

text \<open>
  \<^verbatim>\<open>fill_and_regrid\<close> works on objects that its caller holds too: the input DataArray and
  the two meshgrid arrays. Objects live in a store, the list of all objects made so far;
  the address of an object is its position, so a new object gets an address that no
  earlier object has. The function takes the store and returns it.
\<close>

record data_array =
  lat :: "real list"
  lon :: "real list"
  data :: ndarray

datatype obj = DataArray data_array | NdArray ndarray

type_synonym store = "obj list"

definition objs :: "store \<Rightarrow> nat \<Rightarrow> obj option" where
  "objs s a = (if a < length s then Some (s ! a) else None)"

definition alloc :: "store \<Rightarrow> obj \<Rightarrow> nat \<times> store" where
  "alloc s x = (length s, s @ [x])"

text \<open>\<^verbatim>\<open>filled_ds.data = ...\<close>: the object at the address gets new data; an address that
  holds no DataArray is left as it is.\<close>

definition set_data :: "store \<Rightarrow> nat \<Rightarrow> ndarray \<Rightarrow> store" where
  "set_data s a d =
     (case objs s a of
        Some (DataArray da) \<Rightarrow> s[a := DataArray (da\<lparr>data := d\<rparr>)]
      | _ \<Rightarrow> s)"

text \<open>
  The library pyinterp is not part of the repository. Its two-dimensional grid takes the
  longitudes as the first axis and the latitudes as the second, with the data transposed
  to that order. The gap fill \<^verbatim>\<open>pyinterp.fill.loess\<close>, the library's decision whether a
  longitude lies on the (angular) longitude axis, and the bilinear value at a point inside
  the grid are parameters. What \<^verbatim>\<open>bivariate\<close> does with a point outside the grid is
  written out: with the default \<^verbatim>\<open>bounds_error=False\<close> the value there is NaN.
\<close>

record grid2d =
  x_axis :: "real list"
  y_axis :: "real list"
  array :: ndarray

record pyinterp =
  loess :: "grid2d \<Rightarrow> ndarray"
  lon_inside :: "real list \<Rightarrow> real \<Rightarrow> bool"
  bilinear :: "grid2d \<Rightarrow> real \<Rightarrow> real \<Rightarrow> fl"

definition Grid2D :: "data_array \<Rightarrow> grid2d" where
  "Grid2D da = \<lparr> x_axis = lon da, y_axis = lat da, array = transpose (data da) \<rparr>"

definition lat_inside :: "real list \<Rightarrow> real \<Rightarrow> bool" where
  "lat_inside ys v = (list_ex (\<lambda>a. a \<le> v) ys \<and> list_ex (\<lambda>b. v \<le> b) ys)"

definition inside :: "pyinterp \<Rightarrow> real list \<Rightarrow> real list \<Rightarrow> fl \<Rightarrow> fl \<Rightarrow> bool" where
  "inside lib xs ys x y =
     (case (x, y) of
        (Fin u, Fin v) \<Rightarrow> lon_inside lib xs u \<and> lat_inside ys v
      | _ \<Rightarrow> False)"

definition bivariate_point :: "pyinterp \<Rightarrow> grid2d \<Rightarrow> fl \<Rightarrow> fl \<Rightarrow> fl" where
  "bivariate_point lib g x y =
     (case (x, y) of
        (Fin u, Fin v) \<Rightarrow>
          if inside lib (x_axis g) (y_axis g) x y then bilinear lib g u v else NaN
      | _ \<Rightarrow> NaN)"

definition bivariate :: "pyinterp \<Rightarrow> grid2d \<Rightarrow> fl list \<Rightarrow> fl list \<Rightarrow> fl list" where
  "bivariate lib g lons lats = map (\<lambda>(x, y). bivariate_point lib g x y) (zip lons lats)"

text \<open>\<^verbatim>\<open>ravel\<close> is \<open>concat\<close>; \<^verbatim>\<open>reshape\<close> cuts a flat list into rows of the given
  lengths.\<close>

fun reshape :: "'a list \<Rightarrow> nat list \<Rightarrow> 'a list list" where
  "reshape xs [] = []"
| "reshape xs (n # ns) = take n xs # reshape (drop n xs) ns"

text \<open>
  \<^verbatim>\<open>fill_and_regrid(in_arr, mx, my)\<close>. The arguments are addresses. An address that does not
  hold an object of the expected kind gives TypeError, and meshgrid arrays of different
  shapes give ValueError. The function has no other failure of its own.
\<close>

definition fill_and_regrid :: "pyinterp \<Rightarrow> store \<Rightarrow> nat \<Rightarrow> nat \<Rightarrow> nat \<Rightarrow> error + nat \<times> store" where
  "fill_and_regrid lib s in_arr mx my =
     (case (objs s in_arr, objs s mx, objs s my) of
        (Some (DataArray da), Some (NdArray X), Some (NdArray Y)) \<Rightarrow>
          if shape X \<noteq> shape Y then Inl ValueError
          else
            (let grid = Grid2D da;
                 filled = loess lib grid;
                 (filled_ds, s1) = alloc s (DataArray da);
                 s2 = set_data s1 filled_ds (transpose filled)
             in case objs s2 filled_ds of
                  Some (DataArray fd) \<Rightarrow>
                    (let interpolator = Grid2D fd;
                         regridded = reshape (bivariate lib interpolator (concat X) (concat Y)) (shape X);
                         (res, s3) = alloc s2 (NdArray (transpose regridded))
                     in Inr (res, s3))
                | _ \<Rightarrow> Inl TypeError)
      | _ \<Rightarrow> Inl TypeError)"

text \<open>No target point lies on the source grid.\<close>

definition zero_overlap :: "pyinterp \<Rightarrow> data_array \<Rightarrow> ndarray \<Rightarrow> ndarray \<Rightarrow> bool" where
  "zero_overlap lib da X Y =
     list_all (\<lambda>(x, y). \<not> inside lib (lon da) (lat da) x y) (zip (concat X) (concat Y))"

definition all_nan :: "ndarray \<Rightarrow> bool" where
  "all_nan A = list_all (list_all fl_isnan) A"

section \<open>The batch driver\<close>

text \<open>
  \<^verbatim>\<open>GetAlanTiles.py\<close>: the table of regions and the two nested loops. Building a tile
  (\<^verbatim>\<open>ALANTile(...)\<close>) and saving it (\<^verbatim>\<open>save_z_thresh_to_nc\<close>) are parameters that return
  an error where the Python raises. The state of the run is the list of files written so
  far. An exception leaves both loops: the result is the error together with the files
  written until then.
\<close>

type_synonym roi = "int \<times> int \<times> int \<times> int"

definition REGION_LOOKUP :: "(string \<times> string \<times> roi) list" where
  "REGION_LOOKUP =
     [(''EuropeMed'', ''Europe Mediterranean'', (20, 85, - 20, 55)),
      (''MidE_NInd'', ''Middle East and Northern Indian Ocean'', (0, 30, 30, 60)),
      (''NInd_FarE'', ''Northern Indian Ocean, Far East'', (0, 30, 60, 100)),
      (''FarE_Isl'', ''Far East and Islands'', (- 10, 30, 100, 130)),
      (''Oceania'', ''Oceania'', (- 50, 0, 100, 180)),
      (''PacRim'', ''Pacific Rim'', (20, 85, 100, 180)),
      (''NAm'', ''North America'', (20, 85, - 180, - 50)),
      (''CAm'', ''Central America'', (0, 20, - 120, - 60)),
      (''SAm'', ''South America'', (- 60, 0, - 90, - 30)),
      (''NAfr'', ''North Africa'', (0, 30, - 20, 20)),
      (''SAfr'', ''South Africa'', (- 40, 0, 0, 70))]"

record ('t, 'f) tiles =
  ALANTile :: "string \<Rightarrow> roi \<Rightarrow> string \<Rightarrow> error + 't"
  save_z_thresh_to_nc :: "'t \<Rightarrow> string \<Rightarrow> error + 'f"

text \<open>One pass of the inner loop body: build the tile, then save it.\<close>

definition process_unit :: "('t, 'f) tiles \<Rightarrow> string \<Rightarrow> string \<Rightarrow> roi \<Rightarrow> string \<Rightarrow> error + 'f" where
  "process_unit env region_name user_friendly_region_name roi month =
     (case ALANTile env user_friendly_region_name roi month of
        Inl e \<Rightarrow> Inl e
      | Inr alan_tile \<Rightarrow> save_z_thresh_to_nc env alan_tile region_name)"

fun months_loop ::
  "('t, 'f) tiles \<Rightarrow> string \<Rightarrow> string \<Rightarrow> roi \<Rightarrow> string list \<Rightarrow> 'f list \<Rightarrow> error option \<times> 'f list" where
  "months_loop env region_name nm roi [] saved = (None, saved)"
| "months_loop env region_name nm roi (month # months) saved =
     (case process_unit env region_name nm roi month of
        Inl e \<Rightarrow> (Some e, saved)
      | Inr f \<Rightarrow> months_loop env region_name nm roi months (saved @ [f]))"

fun regions_loop ::
  "('t, 'f) tiles \<Rightarrow> string list \<Rightarrow> string list \<Rightarrow> 'f list \<Rightarrow> error option \<times> 'f list" where
  "regions_loop env [] months saved = (None, saved)"
| "regions_loop env (region_name # regions) months saved =
     (case map_of REGION_LOOKUP region_name of
        None \<Rightarrow> (Some KeyError, saved)
      | Some (nm, roi) \<Rightarrow>
          (case months_loop env region_name nm roi months saved of
             (Some e, saved') \<Rightarrow> (Some e, saved')
           | (None, saved') \<Rightarrow> regions_loop env regions months saved'))"

definition main :: "('t, 'f) tiles \<Rightarrow> string list \<Rightarrow> string list \<Rightarrow> error option \<times> 'f list" where
  "main env regions months = regions_loop env regions months []"

text \<open>The units of a run in the order of the loops, and the outcome of one unit.\<close>

definition units :: "string list \<Rightarrow> string list \<Rightarrow> (string \<times> string) list" where
  "units regions months = concat (map (\<lambda>r. map (\<lambda>m. (r, m)) months) regions)"

definition unit_outcome :: "('t, 'f) tiles \<Rightarrow> string \<times> string \<Rightarrow> error + 'f" where
  "unit_outcome env u =
     (case map_of REGION_LOOKUP (fst u) of
        None \<Rightarrow> Inl KeyError
      | Some (nm, roi) \<Rightarrow> process_unit env (fst u) nm roi (snd u))"

section \<open>Auxiliary definitions\<close>

text \<open>An index pair of an array.\<close>

definition cell_of :: "'a list list \<Rightarrow> nat \<Rightarrow> nat \<Rightarrow> bool" where
  "cell_of A i j = (i < length A \<and> j < length (A ! i))"

text \<open>What a call of \<open>fill_and_regrid\<close> returns: the error, or the object at the returned
  address.\<close>

definition returned :: "error + nat \<times> store \<Rightarrow> error + obj option" where
  "returned r = (case r of Inl e \<Rightarrow> Inl e | Inr (a, s) \<Rightarrow> Inr (objs s a))"

section \<open>Example inputs\<close>

text \<open>A calibration whose channel slopes cancel, one with equal slopes, and the second
  with the fill value 0.1.\<close>

definition cfg_mixed :: config where
  "cfg_mixed = \<lparr> M_BLUE = Fin 1, C_BLUE = Fin 0, M_GREEN = Fin (- 1), C_GREEN = Fin 0,
     M_RED = Fin 0, C_RED = Fin 0, THRESH_IRR_TOTAL_UW_M2 = Fin (102 / 1000),
     FALCHI_MASK_THRESHOLD = Fin 0, KD_FILLVAL = Fin (- 999) \<rparr>"

definition cfg_unit :: config where
  "cfg_unit = \<lparr> M_BLUE = Fin 1, C_BLUE = Fin 0, M_GREEN = Fin 1, C_GREEN = Fin 0,
     M_RED = Fin 1, C_RED = Fin 0, THRESH_IRR_TOTAL_UW_M2 = Fin (102 / 1000),
     FALCHI_MASK_THRESHOLD = Fin 1, KD_FILLVAL = Fin (- 999) \<rparr>"

definition cfg_tenth :: config where
  "cfg_tenth = cfg_unit\<lparr>KD_FILLVAL := Fin (1 / 10)\<rparr>"

text \<open>Attenuation arrays: the coefficients 1, 0, 1000 and 1/2^60 on all channels, and a
  row of two cells.\<close>

definition kd_one :: kd where
  "kd_one = \<lparr> kd_blue = [[Fin 1]], kd_green = [[Fin 1]], kd_red = [[Fin 1]] \<rparr>"

definition kd_zero :: kd where
  "kd_zero = \<lparr> kd_blue = [[Fin 0]], kd_green = [[Fin 0]], kd_red = [[Fin 0]] \<rparr>"

definition kd_thousand :: kd where
  "kd_thousand = \<lparr> kd_blue = [[Fin 1000]], kd_green = [[Fin 1000]], kd_red = [[Fin 1000]] \<rparr>"

definition kd_tiny :: kd where
  "kd_tiny = \<lparr> kd_blue = [[Fin (1 / 2 ^ 60)]], kd_green = [[Fin (1 / 2 ^ 60)]],
     kd_red = [[Fin (1 / 2 ^ 60)]] \<rparr>"

definition kd_pair :: kd where
  "kd_pair = \<lparr> kd_blue = [[Fin (- 999), Fin 1]], kd_green = [[Fin 1, Fin 1]], kd_red = [[Fin 1, Fin 1]] \<rparr>"

text \<open>
  Two float32 datasets as read from a file. The first holds the fill value -999 in one
  cell. The only cell of the second is 13421773 / 134217728, the float32 nearest to 0.1.
\<close>

definition kd_file :: kd_dataset where
  "kd_file = \<lparr> kd_blue = [[Fin (- 999), Fin 1]], kd_green = [[Fin 1, Fin 1]],
     kd_red = [[Fin 1, Fin 1]], kd_dtype = Float32 \<rparr>"

definition kd_file_tenth :: kd_dataset where
  "kd_file_tenth = \<lparr> kd_blue = [[Fin (13421773 / 134217728)]], kd_green = [[Fin 1]],
     kd_red = [[Fin 1]], kd_dtype = Float32 \<rparr>"

text \<open>
  A stand-in for the library: the fill returns the grid as it is, a longitude lies on the
  axis when it is between two of its values, and the value inside is the first cell. The
  source raster covers latitudes and longitudes 0 to 1; the target point is at longitude 50,
  latitude 60.
\<close>

definition lib_plain :: pyinterp where
  "lib_plain = \<lparr> loess = array,
      lon_inside = (\<lambda>xs v. list_ex (\<lambda>a. a \<le> v) xs \<and> list_ex (\<lambda>b. v \<le> b) xs),
      bilinear = (\<lambda>g u v. case array g of (c # _) # _ \<Rightarrow> c | _ \<Rightarrow> NaN) \<rparr>"

definition da_unit :: data_array where
  "da_unit = \<lparr> lat = [1, 0], lon = [0, 1], data = [[Fin 5, Fin 5], [Fin 5, Fin 5]] \<rparr>"

definition store_far :: store where
  "store_far = [DataArray da_unit, NdArray [[Fin 50]], NdArray [[Fin 60]]]"

text \<open>A pipeline whose tile for month 01 cannot be built; every other tile is built and
  saved.\<close>

definition tiles_fail_first :: "(string, string) tiles" where
  "tiles_fail_first =
     \<lparr> ALANTile = (\<lambda>nm roi month. if month = ''01'' then Inl OSError else Inr month),
       save_z_thresh_to_nc = (\<lambda>tile region_name. Inr (region_name @ tile)) \<rparr>"

section \<open>Facts about arrays and cells\<close>

lemma shape_ew1: "shape (ew1 f A) = shape A"
  by (simp add: shape_def ew1_def)

lemma shape_length: "shape A = shape B \<Longrightarrow> length A = length B"
  by (metis length_map shape_def)

lemma shape_row: "shape A = shape B \<Longrightarrow> i < length A \<Longrightarrow> length (A ! i) = length (B ! i)"
  by (metis length_map nth_map shape_def)

lemma shape_ew2: "shape A = shape B \<Longrightarrow> shape (ew2 f A B) = shape A"
proof -
  assume s: "shape A = shape B"
  have len: "length A = length B" using s by (rule shape_length)
  show ?thesis
  proof (rule nth_equalityI)
    show "length (shape (ew2 f A B)) = length (shape A)"
      by (simp add: shape_def ew2_def len)
  next
    fix i assume "i < length (shape (ew2 f A B))"
    then have i: "i < length A" by (simp add: shape_def ew2_def len)
    then show "shape (ew2 f A B) ! i = shape A ! i"
      using shape_row [OF s i] by (simp add: shape_def ew2_def len)
  qed
qed

lemma nth_ew1: "i < length A \<Longrightarrow> j < length (A ! i) \<Longrightarrow> ew1 f A ! i ! j = f (A ! i ! j)"
  by (simp add: ew1_def)

lemma nth_ew2:
  "shape A = shape B \<Longrightarrow> i < length A \<Longrightarrow> j < length (A ! i) \<Longrightarrow>
   ew2 f A B ! i ! j = f (A ! i ! j) (B ! i ! j)"
  using shape_length [of A B] shape_row [of A B i] by (simp add: ew2_def)

lemma cell_of_shape: "shape A = shape B \<Longrightarrow> cell_of A i j = cell_of B i j"
  using shape_length [of A B] shape_row [of A B i] by (auto simp: cell_of_def)

lemma at_ew1: "cell_of A i j \<Longrightarrow> ew1 f A ! i ! j = f (A ! i ! j)"
  by (simp add: cell_of_def nth_ew1)

lemma at_ew2: "shape A = shape B \<Longrightarrow> cell_of A i j \<Longrightarrow> ew2 f A B ! i ! j = f (A ! i ! j) (B ! i ! j)"
  by (simp add: cell_of_def nth_ew2)


lemma cell_ew1: "cell_of (ew1 f A) i j = cell_of A i j"
  by (rule cell_of_shape) (rule shape_ew1)

lemma cell_ew2: "shape A = shape B \<Longrightarrow> cell_of (ew2 f A B) i j = cell_of A i j"
  by (rule cell_of_shape) (rule shape_ew2)

lemmas arr_simps = shape_ew1 shape_ew2 cell_ew1 cell_ew2 at_ew1 at_ew2

lemma shape_blue: "shape (sfce_irr_blue_uW_m2 cfg F) = shape F"
  and shape_green: "shape (sfce_irr_green_uW_m2 cfg F) = shape F"
  and shape_red: "shape (sfce_irr_red_uW_m2 cfg F) = shape F"
  by (simp_all add: sfce_irr_blue_uW_m2_def sfce_irr_green_uW_m2_def sfce_irr_red_uW_m2_def shape_ew1)

lemma shape_total: "shape (sfce_irr_total_uW_m2 cfg F) = shape F"
  by (simp add: sfce_irr_total_uW_m2_def shape_ew2 shape_blue shape_green shape_red)

lemma shape_R: "shape (R_blue cfg F) = shape F" "shape (R_green cfg F) = shape F"
  "shape (R_red cfg F) = shape F"
  by (simp_all add: R_blue_def R_green_def R_red_def shape_ew2 shape_blue shape_green shape_red shape_total)

lemma shape_log_expression:
  "same_shape F K \<Longrightarrow> shape (Kd_log_expression cfg F K) = shape F"
  by (simp add: Kd_log_expression_def same_shape_def shape_ew2 shape_ew1 shape_R)

lemma shape_Kd_total_log: "same_shape F K \<Longrightarrow> shape (Kd_total_log cfg F K) = shape F"
  by (simp add: Kd_total_log_def Let_def np_where_as_def shape_ew2 shape_ew1 shape_log_expression)

lemma shape_Kd_total: "same_shape F K \<Longrightarrow> shape (Kd_total cfg F K) = shape F"
  by (simp add: Kd_total_def Let_def np_where_as_def shape_ew2 shape_ew1 shape_Kd_total_log)

lemma shape_z_thresh_sea: "same_shape F K \<Longrightarrow> shape (z_thresh_sea cfg F K) = shape F"
  by (simp add: z_thresh_sea_def shape_ew2 shape_ew1 shape_Kd_total shape_total)

lemma at_blue: "cell_of F i j \<Longrightarrow> sfce_irr_blue_uW_m2 cfg F ! i ! j = cell_blue cfg (F ! i ! j)"
  and at_green: "cell_of F i j \<Longrightarrow> sfce_irr_green_uW_m2 cfg F ! i ! j = cell_green cfg (F ! i ! j)"
  and at_red: "cell_of F i j \<Longrightarrow> sfce_irr_red_uW_m2 cfg F ! i ! j = cell_red cfg (F ! i ! j)"
  by (simp_all add: sfce_irr_blue_uW_m2_def sfce_irr_green_uW_m2_def sfce_irr_red_uW_m2_def
      cell_blue_def cell_green_def cell_red_def arr_simps)

lemma cell_irr:
  "cell_of (sfce_irr_blue_uW_m2 cfg F) i j = cell_of F i j"
  "cell_of (sfce_irr_green_uW_m2 cfg F) i j = cell_of F i j"
  "cell_of (sfce_irr_red_uW_m2 cfg F) i j = cell_of F i j"
  "cell_of (sfce_irr_total_uW_m2 cfg F) i j = cell_of F i j"
  "cell_of (R_blue cfg F) i j = cell_of F i j"
  "cell_of (R_green cfg F) i j = cell_of F i j"
  "cell_of (R_red cfg F) i j = cell_of F i j"
  by (rule cell_of_shape, simp add: shape_blue shape_green shape_red shape_total shape_R)+

lemmas shape_irr = shape_blue shape_green shape_red shape_total shape_R

lemma at_total: "cell_of F i j \<Longrightarrow> sfce_irr_total_uW_m2 cfg F ! i ! j = cell_total cfg (F ! i ! j)"
  by (simp add: sfce_irr_total_uW_m2_def cell_total_def arr_simps shape_irr cell_irr
      at_blue at_green at_red)

lemma at_R:
  assumes "cell_of F i j"
  shows "R_blue cfg F ! i ! j = fl_div (cell_blue cfg (F ! i ! j)) (cell_total cfg (F ! i ! j))"
    and "R_green cfg F ! i ! j = fl_div (cell_green cfg (F ! i ! j)) (cell_total cfg (F ! i ! j))"
    and "R_red cfg F ! i ! j = fl_div (cell_red cfg (F ! i ! j)) (cell_total cfg (F ! i ! j))"
  using assms
  by (simp_all add: R_blue_def R_green_def R_red_def arr_simps shape_irr cell_irr
      at_blue at_green at_red at_total)

lemma at_log_expression:
  assumes "same_shape F K" "cell_of F i j"
  shows "Kd_log_expression cfg F K ! i ! j =
         cell_log_expression cfg (F ! i ! j) (kd_blue K ! i ! j) (kd_green K ! i ! j) (kd_red K ! i ! j)"
proof -
  have sh: "shape (kd_blue K) = shape F" "shape (kd_green K) = shape F" "shape (kd_red K) = shape F"
    using assms(1) by (simp_all add: same_shape_def)
  have c: "cell_of (kd_blue K) i j" "cell_of (kd_green K) i j" "cell_of (kd_red K) i j"
    using assms(2) cell_of_shape [OF sh(1)] cell_of_shape [OF sh(2)] cell_of_shape [OF sh(3)]
    by simp_all
  show ?thesis
    unfolding Kd_log_expression_def cell_log_expression_def
    using assms(2) c sh by (simp add: arr_simps shape_irr cell_irr at_R)
qed

lemma at_Kd_total_log:
  assumes "same_shape F K" "cell_of F i j"
  shows "Kd_total_log cfg F K ! i ! j = guard_log (Kd_log_expression cfg F K ! i ! j)"
proof -
  let ?e = "Kd_log_expression cfg F K"
  have ce: "cell_of ?e i j"
    using cell_of_shape [OF shape_log_expression [OF assms(1)]] assms(2) by simp
  show ?thesis
    unfolding Kd_total_log_def Let_def np_where_as_def guard_log_def
    using ce by (simp add: arr_simps)
qed

lemma at_Kd_total:
  assumes "same_shape F K" "cell_of F i j"
  shows "Kd_total cfg F K ! i ! j = guard_pos (Kd_total_log cfg F K ! i ! j)"
proof -
  let ?k = "Kd_total_log cfg F K"
  have ck: "cell_of ?k i j"
    using cell_of_shape [OF shape_Kd_total_log [OF assms(1)]] assms(2) by simp
  show ?thesis
    unfolding Kd_total_def Let_def np_where_as_def guard_pos_def
    using ck by (simp add: arr_simps)
qed

lemma at_z_thresh_sea:
  assumes "same_shape F K" "cell_of F i j"
  shows "z_thresh_sea cfg F K ! i ! j =
         cell_z cfg (F ! i ! j) (kd_blue K ! i ! j) (kd_green K ! i ! j) (kd_red K ! i ! j)"
proof -
  have ck: "cell_of (Kd_total cfg F K) i j"
    using cell_of_shape [OF shape_Kd_total [OF assms(1)]] assms(2) by simp
  have sk: "shape (Kd_total cfg F K) = shape F"
    using assms(1) by (rule shape_Kd_total)
  show ?thesis
    unfolding z_thresh_sea_def cell_z_def
    using assms ck sk
    by (simp add: arr_simps shape_irr cell_irr at_total at_Kd_total at_Kd_total_log at_log_expression)
qed

section \<open>The two guards\<close>

lemma guard_pos_cases: "guard_pos k = NaN \<or> (\<exists>r. guard_pos k = Fin r \<and> 0 < r \<and> k = Fin r) \<or> guard_pos k = PInf"
  by (cases k) (auto simp: guard_pos_def)

lemma guard_log_not_PInf: "guard_log e \<noteq> PInf"
  by (cases e) (auto simp: guard_log_def)

lemma guard_pos_log_cases:
  "guard_pos (guard_log e) = NaN \<or> (\<exists>r. guard_pos (guard_log e) = Fin r \<and> 0 < r)"
  using guard_pos_cases [of "guard_log e"] guard_log_not_PInf [of e]
  by (auto simp: guard_pos_def split: if_splits)

lemma guard_bad_argument:
  "fl_le e (Fin 0) \<or> fl_isnan e \<or> fl_isinf e \<Longrightarrow> guard_pos (guard_log e) = NaN"
  by (cases e) (auto simp: guard_pos_def guard_log_def)

lemma guard_pos_nonpositive: "\<not> fl_gt k (Fin 0) \<Longrightarrow> guard_pos k = NaN"
  by (simp add: guard_pos_def)

lemma fl_le_not_gt: "fl_le k (Fin 0) \<Longrightarrow> \<not> fl_gt k (Fin 0)"
  by (cases k) auto

lemma fl_div_NaN_right: "fl_div x NaN = NaN"
  by (cases x) simp_all

lemma cell_z_NaN:
  "guard_pos (guard_log (cell_log_expression cfg b kb kg kr)) = NaN \<Longrightarrow> cell_z cfg b kb kg kr = NaN"
  by (simp add: cell_z_def fl_div_NaN_right)

section \<open>The land mask\<close>

lemma array_eqI:
  assumes s: "shape A = shape B" and c: "\<And>i j. cell_of A i j \<Longrightarrow> A ! i ! j = B ! i ! j"
  shows "A = B"
proof (rule nth_equalityI)
  show len: "length A = length B" using s by (rule shape_length)
  fix i assume i: "i < length A"
  show "A ! i = B ! i"
  proof (rule nth_equalityI)
    show "length (A ! i) = length (B ! i)" using s i by (rule shape_row)
    fix j assume "j < length (A ! i)"
    with i show "A ! i ! j = B ! i ! j" by (simp add: c cell_of_def)
  qed
qed

lemma singleton_array:
  assumes "Z ! 0 ! 0 = v" "shape Z = shape [[x]]"
  shows "Z = [[v]]"
proof (rule array_eqI)
  show "shape Z = shape [[v]]" using assms(2) by (simp add: shape_def)
  fix i j assume "cell_of Z i j"
  then have "i = 0 \<and> j = 0"
    using cell_of_shape [OF assms(2), of i j] by (auto simp: cell_of_def)
  then show "Z ! i ! j = [[v]] ! i ! j" using assms(1) by simp
qed

lemma apply_landmask_shape:
  "apply_landmask lm A = Inr M \<Longrightarrow> shape lm = shape A \<and> shape M = shape A"
  by (auto simp: apply_landmask_def Let_def arr_simps split: if_splits)

lemma apply_landmask_ok:
  "shape lm = shape A \<Longrightarrow> \<exists>M. apply_landmask lm A = Inr M"
  by (simp add: apply_landmask_def Let_def arr_simps)

lemma at_apply_landmask:
  assumes "apply_landmask lm A = Inr M" "cell_of A i j"
  shows "M ! i ! j = (if lm ! i ! j = 255 then A ! i ! j else NaN)"
proof -
  have s: "shape lm = shape A" using assms(1) by (simp add: apply_landmask_shape)
  have c: "cell_of lm i j" using cell_of_shape [OF s] assms(2) by simp
  have "M = ew2 (\<lambda>b x. if b then NaN else x) (ew1 Not (ew1 (\<lambda>c. c = 255) lm)) A"
    using assms(1) by (auto simp: apply_landmask_def Let_def split: if_splits)
  then show ?thesis using s c by (simp add: arr_simps)
qed

lemma apply_landmask_idem:
  assumes "apply_landmask lm A = Inr M"
  shows "apply_landmask lm M = Inr M"
proof -
  have s: "shape lm = shape A" "shape M = shape A"
    using assms by (simp_all add: apply_landmask_shape)
  then have "shape lm = shape M" by simp
  then obtain M' where m': "apply_landmask lm M = Inr M'"
    using apply_landmask_ok by blast
  have "M' = M"
  proof (rule array_eqI)
    show "shape M' = shape M" using m' by (simp add: apply_landmask_shape)
    fix i j assume "cell_of M' i j"
    then have cm: "cell_of M i j"
      using cell_of_shape [OF \<open>shape M' = shape M\<close>] by simp
    then have ca: "cell_of A i j" using cell_of_shape [OF s(2)] by simp
    show "M' ! i ! j = M ! i ! j"
      using at_apply_landmask [OF m' cm] at_apply_landmask [OF assms ca] by simp
  qed
  with m' show ?thesis by simp
qed

lemma calculate_z_thresh_Inr:
  assumes "calculate_z_thresh cfg lm F K = Inr Z"
  shows "same_shape F K" "shape lm = shape F" "shape Z = shape F"
    "apply_landmask lm (z_thresh_sea cfg F K) = Inr Z"
proof -
  show ss: "same_shape F K"
    using assms by (simp add: calculate_z_thresh_def split: if_splits)
  then show a: "apply_landmask lm (z_thresh_sea cfg F K) = Inr Z"
    using assms by (simp add: calculate_z_thresh_def)
  show "shape lm = shape F" "shape Z = shape F"
    using apply_landmask_shape [OF a] shape_z_thresh_sea [OF ss] by simp_all
qed

lemma at_calculate_z_thresh:
  assumes "calculate_z_thresh cfg lm F K = Inr Z" "cell_of F i j"
  shows "Z ! i ! j =
    (if lm ! i ! j = 255
     then cell_z cfg (F ! i ! j) (kd_blue K ! i ! j) (kd_green K ! i ! j) (kd_red K ! i ! j)
     else NaN)"
proof -
  note r = calculate_z_thresh_Inr [OF assms(1)]
  have c: "cell_of (z_thresh_sea cfg F K) i j"
    using cell_of_shape [OF shape_z_thresh_sea [OF r(1)]] assms(2) by simp
  show ?thesis
    using at_apply_landmask [OF r(4) c] at_z_thresh_sea [OF r(1) assms(2)] by simp
qed

lemma calculate_z_thresh_ok:
  "same_shape F K \<Longrightarrow> shape lm = shape F \<Longrightarrow> \<exists>Z. calculate_z_thresh cfg lm F K = Inr Z"
  by (simp add: calculate_z_thresh_def apply_landmask_ok shape_z_thresh_sea)

text \<open>
  C3. For arrays of one shape and a land/sea grid of that shape, \<open>calculate_z_thresh\<close>
  returns a grid of that shape in which every cell whose land/sea code is not 255 is NaN,
  whatever the formula gave there, and every cell with code 255 holds the value of the
  formula; applying the land mask to the result again returns the same grid.
\<close>
theorem landmask_overrides:
  assumes "same_shape F K" "shape lm = shape F"
  shows "\<exists>Z. calculate_z_thresh cfg lm F K = Inr Z \<and> shape Z = shape F \<and>
           (\<forall>i j. cell_of F i j \<longrightarrow>
              (lm ! i ! j \<noteq> 255 \<longrightarrow> Z ! i ! j = NaN) \<and>
              (lm ! i ! j = 255 \<longrightarrow> Z ! i ! j = z_thresh_sea cfg F K ! i ! j)) \<and>
           apply_landmask lm Z = Inr Z"
proof -
  obtain Z where z: "calculate_z_thresh cfg lm F K = Inr Z"
    using calculate_z_thresh_ok [OF assms] by blast
  note r = calculate_z_thresh_Inr [OF z]
  have "\<forall>i j. cell_of F i j \<longrightarrow>
              (lm ! i ! j \<noteq> 255 \<longrightarrow> Z ! i ! j = NaN) \<and>
              (lm ! i ! j = 255 \<longrightarrow> Z ! i ! j = z_thresh_sea cfg F K ! i ! j)"
    using at_calculate_z_thresh [OF z] at_z_thresh_sea [OF assms(1)] by simp
  moreover have "apply_landmask lm Z = Inr Z" using r(4) by (rule apply_landmask_idem)
  ultimately show ?thesis using z r(3) by blast
qed

text \<open>
  C2. At every cell, when the argument of the logarithm is at most zero, a NaN or an
  infinity, the effective attenuation \<open>Kd_total\<close> is NaN; when the value after the first
  guard is at most zero, \<open>Kd_total\<close> is NaN; and the \<open>Kd_total\<close> that the division reads is
  never at most zero. The logarithm and the division are total on cells: they give NaN or
  an infinity where the mathematics is undefined.
\<close>
theorem log_argument_guarded:
  assumes "same_shape F K" "cell_of F i j"
  shows "(fl_le (Kd_log_expression cfg F K ! i ! j) (Fin 0) \<or>
          fl_isnan (Kd_log_expression cfg F K ! i ! j) \<or>
          fl_isinf (Kd_log_expression cfg F K ! i ! j) \<longrightarrow> Kd_total cfg F K ! i ! j = NaN) \<and>
         (fl_le (Kd_total_log cfg F K ! i ! j) (Fin 0) \<longrightarrow> Kd_total cfg F K ! i ! j = NaN) \<and>
         \<not> fl_le (Kd_total cfg F K ! i ! j) (Fin 0)"
proof -
  let ?e = "Kd_log_expression cfg F K ! i ! j"
  have k: "Kd_total cfg F K ! i ! j = guard_pos (guard_log ?e)"
    and k1: "Kd_total cfg F K ! i ! j = guard_pos (Kd_total_log cfg F K ! i ! j)"
    using assms by (simp_all add: at_Kd_total at_Kd_total_log)
  have a: "fl_le ?e (Fin 0) \<or> fl_isnan ?e \<or> fl_isinf ?e \<longrightarrow> Kd_total cfg F K ! i ! j = NaN"
    using guard_bad_argument [of ?e] k by simp
  have b: "fl_le (Kd_total_log cfg F K ! i ! j) (Fin 0) \<longrightarrow> Kd_total cfg F K ! i ! j = NaN"
    using k1 by (simp add: guard_pos_nonpositive fl_le_not_gt)
  have c: "\<not> fl_le (Kd_total cfg F K ! i ! j) (Fin 0)"
    using guard_pos_log_cases [of ?e] k by auto
  from a b c show ?thesis by blast
qed

text \<open>
  C10. After the two guards every cell of \<open>Kd_total\<close> is NaN or a finite number greater
  than zero, so \<^verbatim>\<open>-1.0 / Kd_total\<close> never divides by zero or by a negative number; and
  where \<open>Kd_total\<close> is NaN, the depth is NaN before the land mask and in the result of
  \<open>calculate_z_thresh\<close>.
\<close>
theorem Kd_total_positive_or_nan:
  assumes "same_shape F K" "cell_of F i j"
  shows "(Kd_total cfg F K ! i ! j = NaN \<or> (\<exists>r. Kd_total cfg F K ! i ! j = Fin r \<and> 0 < r)) \<and>
         (Kd_total cfg F K ! i ! j = NaN \<longrightarrow>
            z_thresh_sea cfg F K ! i ! j = NaN \<and>
            (\<forall>lm Z. calculate_z_thresh cfg lm F K = Inr Z \<longrightarrow> Z ! i ! j = NaN))"
proof -
  let ?e = "Kd_log_expression cfg F K ! i ! j"
  have k: "Kd_total cfg F K ! i ! j = guard_pos (guard_log ?e)"
    using assms by (simp add: at_Kd_total at_Kd_total_log)
  have e: "?e = cell_log_expression cfg (F ! i ! j) (kd_blue K ! i ! j) (kd_green K ! i ! j) (kd_red K ! i ! j)"
    using assms by (rule at_log_expression)
  have a: "Kd_total cfg F K ! i ! j = NaN \<or> (\<exists>r. Kd_total cfg F K ! i ! j = Fin r \<and> 0 < r)"
    using guard_pos_log_cases [of ?e] k by simp
  have b: "z_thresh_sea cfg F K ! i ! j = NaN" if n: "Kd_total cfg F K ! i ! j = NaN"
    using n k e at_z_thresh_sea [OF assms] by (simp add: cell_z_NaN)
  have c: "Z ! i ! j = NaN"
    if n: "Kd_total cfg F K ! i ! j = NaN" and z: "calculate_z_thresh cfg lm F K = Inr Z" for lm Z
    using at_calculate_z_thresh [OF z assms(2)] b [OF n] at_z_thresh_sea [OF assms] by simp
  from a b c show ?thesis by blast
qed

section \<open>Masking and fill values\<close>

lemma shape_mask_falchi: "shape (mask_falchi cfg F) = shape F"
  by (simp add: mask_falchi_def np_where_sa_def arr_simps)

lemma at_mask_falchi:
  "cell_of F i j \<Longrightarrow>
   mask_falchi cfg F ! i ! j =
     (if fl_le (F ! i ! j) (FALCHI_MASK_THRESHOLD cfg) then NaN else F ! i ! j)"
  by (simp add: mask_falchi_def np_where_sa_def arr_simps)

text \<open>
  C4. For a finite brightness \<open>b\<close> at a cell, \<open>mask_falchi\<close> gives NaN exactly when
  \<open>b \<le> threshold\<close> (also when \<open>b\<close> equals the threshold) and gives \<open>b\<close> itself otherwise,
  in particular when \<open>b > threshold\<close>; the result has the shape of the input. The function
  has no error result.
\<close>
theorem mask_falchi_threshold:
  assumes "cell_of F i j" "F ! i ! j = Fin b"
  shows "shape (mask_falchi cfg F) = shape F \<and>
         (mask_falchi cfg F ! i ! j = NaN \<longleftrightarrow> fl_le (Fin b) (FALCHI_MASK_THRESHOLD cfg)) \<and>
         (\<not> fl_le (Fin b) (FALCHI_MASK_THRESHOLD cfg) \<longrightarrow> mask_falchi cfg F ! i ! j = Fin b) \<and>
         (fl_gt (Fin b) (FALCHI_MASK_THRESHOLD cfg) \<longrightarrow> mask_falchi cfg F ! i ! j = Fin b) \<and>
         (\<forall>t. FALCHI_MASK_THRESHOLD cfg = Fin t \<longrightarrow>
            mask_falchi cfg F ! i ! j = (if b \<le> t then NaN else Fin b))"
proof -
  have g: "fl_gt (Fin b) t \<Longrightarrow> \<not> fl_le (Fin b) t" for t by (cases t) auto
  show ?thesis
    using assms g [of "FALCHI_MASK_THRESHOLD cfg"]
    by (auto simp: at_mask_falchi shape_mask_falchi)
qed

lemma at_xr_where_ne:
  "cell_of A i j \<Longrightarrow>
   xr_where (ew1 (\<lambda>x. fl_ne x v) A) A ! i ! j = (if fl_eq (A ! i ! j) v then NaN else A ! i ! j)"
  by (simp add: xr_where_def np_where_as_def arr_simps fl_ne_def)

lemma shape_xr_where_ne: "shape (xr_where (ew1 (\<lambda>x. fl_ne x v) A) A) = shape A"
  by (simp add: xr_where_def np_where_as_def arr_simps)

text \<open>Rounding to float32 at some numbers.\<close>

lemma f32_exponent_from_eq:
  "2 powi e \<le> a \<Longrightarrow> a < 2 powi (e + 1) \<Longrightarrow> - 126 \<le> e \<Longrightarrow> e \<le> int n - 126 \<Longrightarrow>
   f32_exponent_from a n = e"
proof (induction n)
  case 0
  then show ?case by simp
next
  case (Suc n)
  show ?case
  proof (cases "e = int (Suc n) - 126")
    case True
    then show ?thesis using Suc.prems(1) by simp
  next
    case False
    then have le: "e \<le> int n - 126" using Suc.prems(4) by simp
    then have "e + 1 \<le> int (Suc n) - 126" by simp
    then have "(2::real) powi (e + 1) \<le> 2 powi (int (Suc n) - 126)"
      by (intro power_int_increasing) simp_all
    then have "\<not> 2 powi (int (Suc n) - 126) \<le> a" using Suc.prems(2) by simp
    then show ?thesis using Suc.IH [OF Suc.prems(1,2,3) le] by simp
  qed
qed

lemma f32_exponent_eq:
  "2 powi e \<le> a \<Longrightarrow> a < 2 powi (e + 1) \<Longrightarrow> - 126 \<le> e \<Longrightarrow> e \<le> 127 \<Longrightarrow> f32_exponent a = e"
  unfolding f32_exponent_def by (rule f32_exponent_from_eq) simp_all

lemma round_f32_tenth: "round_f32 (1 / 10) = Fin (13421773 / 134217728)"
proof -
  have e: "f32_exponent (1 / 10) = - 4"
    by (rule f32_exponent_eq) (simp_all add: power_int_minus)
  have r: "rne (67108864 / 5) = 13421773" by (simp add: rne_def Let_def)
  show ?thesis using r by (simp add: round_f32_def Let_def e power_int_minus)
qed

lemma round_f32_999: "round_f32 (- 999) = Fin (- 999)"
proof -
  have e: "f32_exponent 999 = 9" by (rule f32_exponent_eq) simp_all
  have r: "rne 16367616 = 16367616" by (simp add: rne_def Let_def)
  show ?thesis using r by (simp add: round_f32_def Let_def e power_int_minus)
qed

text \<open>
  C8 (as amended). In each of the three channels, \<open>get_kd_data\<close> writes NaN into every
  cell that equals the fill value \<open>KD_FILLVAL\<close> converted to the element type of the
  dataset, leaves every other cell as it is, and keeps the shape and the element type. For
  a float64 dataset the converted fill value is \<open>KD_FILLVAL\<close> itself; for a float32 dataset
  it is \<open>KD_FILLVAL\<close> rounded to the nearest float32.
\<close>

theorem get_kd_data_fill:
  "shape (kd_blue (get_kd_data cfg K)) = shape (kd_blue K) \<and>
   shape (kd_green (get_kd_data cfg K)) = shape (kd_green K) \<and>
   shape (kd_red (get_kd_data cfg K)) = shape (kd_red K) \<and>
   kd_dtype (get_kd_data cfg K) = kd_dtype K \<and>
   (cell_of (kd_blue K) i j \<longrightarrow>
      kd_blue (get_kd_data cfg K) ! i ! j =
        (if fl_eq (kd_blue K ! i ! j) (astype (kd_dtype K) (KD_FILLVAL cfg))
         then NaN else kd_blue K ! i ! j)) \<and>
   (cell_of (kd_green K) i j \<longrightarrow>
      kd_green (get_kd_data cfg K) ! i ! j =
        (if fl_eq (kd_green K ! i ! j) (astype (kd_dtype K) (KD_FILLVAL cfg))
         then NaN else kd_green K ! i ! j)) \<and>
   (cell_of (kd_red K) i j \<longrightarrow>
      kd_red (get_kd_data cfg K) ! i ! j =
        (if fl_eq (kd_red K ! i ! j) (astype (kd_dtype K) (KD_FILLVAL cfg))
         then NaN else kd_red K ! i ! j)) \<and>
   (kd_dtype K = Float64 \<longrightarrow> astype (kd_dtype K) (KD_FILLVAL cfg) = KD_FILLVAL cfg) \<and>
   (\<forall>v. kd_dtype K = Float32 \<and> KD_FILLVAL cfg = Fin v \<longrightarrow>
      astype (kd_dtype K) (KD_FILLVAL cfg) = round_f32 v)"
  by (simp add: get_kd_data_def Let_def at_xr_where_ne shape_xr_where_ne)

text \<open>
  C8 as stated fails. The dataset is float32, the fill value is 0.1, and the cell holds
  13421773 / 134217728. The cell is not equal to the fill value, and it is NaN afterwards.
\<close>

theorem get_kd_data_fill_counterexample:
  "KD_FILLVAL cfg_tenth = Fin (1 / 10) \<and>
   kd_blue kd_file_tenth ! 0 ! 0 = Fin (13421773 / 134217728) \<and>
   fl_ne (kd_blue kd_file_tenth ! 0 ! 0) (KD_FILLVAL cfg_tenth) \<and>
   kd_blue (get_kd_data cfg_tenth kd_file_tenth) ! 0 ! 0 = NaN"
  by (simp add: get_kd_data_def Let_def cfg_tenth_def cfg_unit_def kd_file_tenth_def
      round_f32_tenth xr_where_def np_where_as_def ew1_def ew2_def fl_ne_def)

section \<open>Zero total irradiance and equal channels\<close>

text \<open>A finite sum has finite summands.\<close>

lemma fl_add_Fin: "fl_add x y = Fin r \<Longrightarrow> \<exists>a b. x = Fin a \<and> y = Fin b \<and> r = a + b"
  by (cases x; cases y) auto

lemma cell_total_Fin:
  assumes "cell_total cfg b = Fin r"
  shows "\<exists>x y z. cell_blue cfg b = Fin x \<and> cell_green cfg b = Fin y \<and> cell_red cfg b = Fin z \<and>
           r = x + y + z"
proof -
  from assms obtain u z where u: "fl_add (cell_blue cfg b) (cell_green cfg b) = Fin u"
    "cell_red cfg b = Fin z" "r = u + z"
    unfolding cell_total_def using fl_add_Fin by blast
  from u(1) obtain x y where "cell_blue cfg b = Fin x" "cell_green cfg b = Fin y" "u = x + y"
    using fl_add_Fin by blast
  with u show ?thesis by auto
qed

text \<open>One summand of the logarithm's argument when the total is zero.\<close>

lemma zero_total_term:
  "fl_mul (fl_div (Fin a) (Fin 0)) (fl_exp (fl_mul (Fin (- 1)) k)) = NaN \<or>
   (0 < a \<and> fl_mul (fl_div (Fin a) (Fin 0)) (fl_exp (fl_mul (Fin (- 1)) k)) = PInf) \<or>
   (a < 0 \<and> fl_mul (fl_div (Fin a) (Fin 0)) (fl_exp (fl_mul (Fin (- 1)) k)) = NInf)"
  by (cases k) (auto simp: not_less)

lemma sum3_NaN:
  assumes "t1 = NaN \<or> (0 < x \<and> t1 = PInf) \<or> (x < 0 \<and> t1 = NInf)"
    and "t2 = NaN \<or> (0 < y \<and> t2 = PInf) \<or> (y < 0 \<and> t2 = NInf)"
    and "t3 = NaN \<or> (0 < z \<and> t3 = PInf) \<or> (z < 0 \<and> t3 = NInf)"
    and "x + y + z = (0::real)"
  shows "fl_add (fl_add t1 t2) t3 = NaN"
  using assms by auto

lemma cell_log_expression_zero_total:
  assumes "cell_total cfg b = Fin 0"
  shows "cell_log_expression cfg b kb kg kr = NaN"
proof -
  obtain x y z where f: "cell_blue cfg b = Fin x" "cell_green cfg b = Fin y" "cell_red cfg b = Fin z"
    "x + y + z = 0"
    using cell_total_Fin [OF assms] by auto
  show ?thesis
    unfolding cell_log_expression_def assms f
    by (rule sum3_NaN [OF zero_total_term zero_total_term zero_total_term f(4)])
qed

lemma guard_NaN: "guard_pos (guard_log NaN) = NaN"
  by (simp add: guard_pos_def guard_log_def)

text \<open>
  C1 (as amended). At a cell whose total irradiance is zero, each channel irradiance is
  finite and each fractional weight is NaN when the channel irradiance is zero, plus
  infinity when it is positive and minus infinity when it is negative. The argument of the
  logarithm is NaN there, and so are \<open>Kd_total\<close>, the depth before the land mask and the
  depth in the result of \<open>calculate_z_thresh\<close>. All of these are values; nothing is raised.
\<close>
theorem zero_total_gives_nan_depth:
  assumes "same_shape F K" "cell_of F i j" "sfce_irr_total_uW_m2 cfg F ! i ! j = Fin 0"
  shows "(\<exists>x. sfce_irr_blue_uW_m2 cfg F ! i ! j = Fin x \<and>
              R_blue cfg F ! i ! j = (if x = 0 then NaN else if 0 < x then PInf else NInf)) \<and>
         (\<exists>y. sfce_irr_green_uW_m2 cfg F ! i ! j = Fin y \<and>
              R_green cfg F ! i ! j = (if y = 0 then NaN else if 0 < y then PInf else NInf)) \<and>
         (\<exists>z. sfce_irr_red_uW_m2 cfg F ! i ! j = Fin z \<and>
              R_red cfg F ! i ! j = (if z = 0 then NaN else if 0 < z then PInf else NInf)) \<and>
         Kd_log_expression cfg F K ! i ! j = NaN \<and>
         Kd_total cfg F K ! i ! j = NaN \<and>
         z_thresh_sea cfg F K ! i ! j = NaN \<and>
         (\<forall>lm Z. calculate_z_thresh cfg lm F K = Inr Z \<longrightarrow> Z ! i ! j = NaN)"
proof -
  have t: "cell_total cfg (F ! i ! j) = Fin 0"
    using assms(2,3) by (simp add: at_total)
  obtain x y z where f: "cell_blue cfg (F ! i ! j) = Fin x" "cell_green cfg (F ! i ! j) = Fin y"
    "cell_red cfg (F ! i ! j) = Fin z"
    using cell_total_Fin [OF t] by auto
  have rb: "\<exists>x. sfce_irr_blue_uW_m2 cfg F ! i ! j = Fin x \<and>
              R_blue cfg F ! i ! j = (if x = 0 then NaN else if 0 < x then PInf else NInf)"
    using assms(2) t f(1) by (simp add: at_R at_blue)
  have rg: "\<exists>y. sfce_irr_green_uW_m2 cfg F ! i ! j = Fin y \<and>
              R_green cfg F ! i ! j = (if y = 0 then NaN else if 0 < y then PInf else NInf)"
    using assms(2) t f(2) by (simp add: at_R at_green)
  have rr: "\<exists>z. sfce_irr_red_uW_m2 cfg F ! i ! j = Fin z \<and>
              R_red cfg F ! i ! j = (if z = 0 then NaN else if 0 < z then PInf else NInf)"
    using assms(2) t f(3) by (simp add: at_R at_red)
  have e: "Kd_log_expression cfg F K ! i ! j = NaN"
    using assms(1,2) t by (simp add: at_log_expression cell_log_expression_zero_total)
  have k: "Kd_total cfg F K ! i ! j = NaN"
    using assms(1,2) e by (simp add: at_Kd_total at_Kd_total_log guard_NaN)
  have zc: "cell_z cfg (F ! i ! j) (kd_blue K ! i ! j) (kd_green K ! i ! j) (kd_red K ! i ! j) = NaN"
    using t by (simp add: cell_z_NaN cell_log_expression_zero_total guard_NaN)
  have zs: "z_thresh_sea cfg F K ! i ! j = NaN"
    using assms(1,2) zc by (simp add: at_z_thresh_sea)
  have zl: "Z ! i ! j = NaN" if "calculate_z_thresh cfg lm F K = Inr Z" for lm Z
    using at_calculate_z_thresh [OF that assms(2)] zc by simp
  from rb rg rr e k zs zl show ?thesis by blast
qed

lemmas array_defs = ew1_def ew2_def shape_def cell_of_def np_where_sa_def np_where_as_def
lemmas irr_defs = sfce_irr_blue_uW_m2_def sfce_irr_green_uW_m2_def sfce_irr_red_uW_m2_def
  sfce_irr_total_uW_m2_def R_blue_def R_green_def R_red_def

text \<open>
  C1 as stated fails. With the slopes 1, -1 and 0 and no offsets, the brightness 1 passes
  the mask, the total irradiance of the cell is zero, and the blue weight is plus infinity,
  not NaN.
\<close>

theorem zero_total_weight_counterexample:
  "mask_falchi cfg_mixed [[Fin 1]] = [[Fin 1]] \<and>
   sfce_irr_total_uW_m2 cfg_mixed [[Fin 1]] ! 0 ! 0 = Fin 0 \<and>
   R_blue cfg_mixed [[Fin 1]] ! 0 ! 0 = PInf \<and>
   R_blue cfg_mixed [[Fin 1]] ! 0 ! 0 \<noteq> NaN"
  by (simp add: cfg_mixed_def mask_falchi_def irr_defs array_defs)

theorem zero_total_gives_nan_depth_witness:
  "same_shape [[Fin 1]] kd_one \<and> cell_of [[Fin 1 :: fl]] 0 0 \<and>
   sfce_irr_total_uW_m2 cfg_mixed [[Fin 1]] ! 0 ! 0 = Fin 0 \<and>
   Kd_log_expression cfg_mixed [[Fin 1]] kd_one ! 0 ! 0 = NaN \<and>
   Kd_total cfg_mixed [[Fin 1]] kd_one ! 0 ! 0 = NaN \<and>
   z_thresh_sea cfg_mixed [[Fin 1]] kd_one ! 0 ! 0 = NaN \<and>
   calculate_z_thresh cfg_mixed [[255]] [[Fin 1]] kd_one = Inr [[NaN]]"
proof -
  have h1: "same_shape [[Fin 1]] kd_one" by (simp add: same_shape_def kd_one_def shape_def)
  have h2: "cell_of [[Fin 1 :: fl]] 0 0" by (simp add: cell_of_def)
  have h3: "sfce_irr_total_uW_m2 cfg_mixed [[Fin 1]] ! 0 ! 0 = Fin 0"
    by (simp add: cfg_mixed_def irr_defs array_defs)
  note r = zero_total_gives_nan_depth [OF h1 h2 h3]
  have s: "shape [[255 :: int]] = shape [[Fin 1]]" by (simp add: shape_def)
  obtain Z where z: "calculate_z_thresh cfg_mixed [[255]] [[Fin 1]] kd_one = Inr Z"
    using calculate_z_thresh_ok [OF h1 s] by blast
  have "Z ! 0 ! 0 = NaN" using r z by blast
  moreover have "shape Z = shape [[Fin 1]]" using z by (rule calculate_z_thresh_Inr)
  ultimately have "Z = [[NaN]]" by (rule singleton_array)
  with z r h1 h2 h3 show ?thesis by blast
qed


lemma ln2_lower: "2 / 3 \<le> ln (2::real)"
proof -
  have "exp (1 / 12 :: real) \<le> 1 + 1 / 12 + (1 / 12)\<^sup>2" by (rule exp_bound) simp_all
  then have b: "exp (1 / 12 :: real) \<le> 157 / 144" by (simp add: power2_eq_square)
  have "exp (2 / 3 :: real) = exp (of_nat 8 * (1 / 12))" by simp
  also have "\<dots> = exp (1 / 12) ^ 8" by (rule exp_of_nat_mult)
  also have "\<dots> \<le> (157 / 144) ^ 8" using b by (intro power_mono) simp_all
  also have "\<dots> \<le> (2::real)" by (simp add: power_divide)
  finally have "exp (2 / 3 :: real) \<le> 2" .
  then show ?thesis by (subst ln_ge_iff) simp_all
qed




lemma fl_exp_zero: "fl_exp (Fin 0) = Fin 1"
  using ln2_lower by simp

lemma equal_channels_sum:
  assumes "x + y + z = e" "e \<noteq> (0::real)"
  shows "x / e * w + y / e * w + z / e * w = w"
proof -
  have "x / e * w + y / e * w + z / e * w = (x + y + z) / e * w"
    by (simp add: add_divide_distrib distrib_right)
  then show ?thesis using assms by simp
qed

lemma cell_log_expression_equal:
  assumes "cell_total cfg b = Fin e" "0 < e" "fl_exp (Fin (- k)) = Fin w"
  shows "cell_log_expression cfg b (Fin k) (Fin k) (Fin k) = Fin w"
proof -
  obtain x y z where f: "cell_blue cfg b = Fin x" "cell_green cfg b = Fin y" "cell_red cfg b = Fin z"
    "e = x + y + z"
    using cell_total_Fin [OF assms(1)] by auto
  have m: "fl_mul (Fin (- 1)) (Fin k) = Fin (- k)" by simp
  have "x / e * w + y / e * w + z / e * w = w"
    using f(4) assms(2) by (intro equal_channels_sum) simp_all
  then show ?thesis
    unfolding cell_log_expression_def assms(1) f(1,2,3) m assms(3) using assms(2) by simp
qed






section \<open>Regridding: results and frame\<close>

lemma bivariate_point_outside:
  "\<not> inside lib (x_axis g) (y_axis g) x y \<Longrightarrow> bivariate_point lib g x y = NaN"
  by (cases x; cases y) (simp_all add: bivariate_point_def)

lemma bivariate_outside:
  "list_all (\<lambda>(x, y). \<not> inside lib (x_axis g) (y_axis g) x y) (zip lons lats) \<Longrightarrow>
   list_all fl_isnan (bivariate lib g lons lats)"
  by (auto simp: bivariate_def list_all_iff bivariate_point_outside)

lemma reshape_all: "list_all P xs \<Longrightarrow> list_all (list_all P) (reshape xs ns)"
proof (induction ns arbitrary: xs)
  case Nil
  then show ?case by simp
next
  case (Cons n ns)
  have "list_all P (take n xs)" "list_all P (drop n xs)"
    using Cons.prems by (auto simp: list_all_iff dest: in_set_takeD in_set_dropD)
  then show ?case using Cons.IH by simp
qed

lemma transpose_all:
  assumes "list_all (list_all P) xss"
  shows "list_all (list_all P) (transpose xss)"
proof -
  have "P c" if r: "r \<in> set (transpose xss)" and c: "c \<in> set r" for r c
  proof -
    from r obtain i where i: "i < length (transpose xss)" "r = transpose xss ! i"
      by (auto simp: in_set_conv_nth)
    then have "r = map (\<lambda>xs. xs ! i) (filter (\<lambda>ys. i < length ys) xss)"
      by (simp add: nth_transpose)
    with c obtain ys where "ys \<in> set xss" "i < length ys" "c = ys ! i" by auto
    then show ?thesis using assms by (auto simp: list_all_iff)
  qed
  then show ?thesis by (auto simp: list_all_iff)
qed

lemma objs_Some: "objs s a = Some x \<Longrightarrow> a < length s \<and> s ! a = x"
  by (simp add: objs_def split: if_splits)

text \<open>The store and the address that a successful call returns: two objects are appended,
  the copy of the source with the filled data and the result.\<close>

lemma fill_and_regrid_value:
  assumes "objs s in_arr = Some (DataArray da)" "objs s mx = Some (NdArray X)"
    "objs s my = Some (NdArray Y)" "shape X = shape Y"
  shows "fill_and_regrid lib s in_arr mx my =
    Inr (Suc (length s),
         s @ [DataArray (da\<lparr>data := transpose (loess lib (Grid2D da))\<rparr>),
              NdArray (transpose (reshape
                 (bivariate lib (Grid2D (da\<lparr>data := transpose (loess lib (Grid2D da))\<rparr>))
                    (concat X) (concat Y)) (shape X)))])"
  using assms by (simp add: fill_and_regrid_def alloc_def set_data_def objs_def Let_def)

text \<open>
  C6 (as amended). When no target point lies on the source grid, \<open>fill_and_regrid\<close> does
  not fail: it returns an array, and every cell of that array is NaN.
\<close>

theorem zero_overlap_gives_nan_grid:
  assumes "objs s in_arr = Some (DataArray da)" "objs s mx = Some (NdArray X)"
    "objs s my = Some (NdArray Y)" "shape X = shape Y" "zero_overlap lib da X Y"
  shows "\<exists>A. returned (fill_and_regrid lib s in_arr mx my) = Inr (Some (NdArray A)) \<and> all_nan A"
proof -
  let ?g = "Grid2D (da\<lparr>data := transpose (loess lib (Grid2D da))\<rparr>)"
  let ?A = "transpose (reshape (bivariate lib ?g (concat X) (concat Y)) (shape X))"
  have ax: "x_axis ?g = lon da" "y_axis ?g = lat da" by (simp_all add: Grid2D_def)
  have "list_all (\<lambda>(x, y). \<not> inside lib (x_axis ?g) (y_axis ?g) x y) (zip (concat X) (concat Y))"
    using assms(5) unfolding zero_overlap_def ax .
  then have "all_nan ?A"
    unfolding all_nan_def by (intro transpose_all reshape_all bivariate_outside)
  moreover have "returned (fill_and_regrid lib s in_arr mx my) = Inr (Some (NdArray ?A))"
    unfolding fill_and_regrid_value [OF assms(1-4)] by (simp add: returned_def objs_def nth_append)
  ultimately show ?thesis by blast
qed

text \<open>
  C9. A call of \<open>fill_and_regrid\<close> that returns leaves every object of the store it
  started from as it was, in particular the source array with its coordinates and the two
  target arrays, and the address it returns is a new one that holds an array. (The gap
  fill writes into a copy of the source array; the library calls are functions of their
  arguments.)
\<close>

theorem fill_and_regrid_frame:
  assumes "fill_and_regrid lib s in_arr mx my = Inr (res, s')"
  shows "take (length s) s' = s \<and>
         objs s' in_arr = objs s in_arr \<and> objs s' mx = objs s mx \<and> objs s' my = objs s my \<and>
         objs s res = None \<and> (\<exists>A. objs s' res = Some (NdArray A))"
proof -
  from assms obtain da X Y where o: "objs s in_arr = Some (DataArray da)"
    "objs s mx = Some (NdArray X)" "objs s my = Some (NdArray Y)"
    by (auto simp: fill_and_regrid_def split: option.splits obj.splits)
  have sh: "shape X = shape Y"
    using assms o by (auto simp: fill_and_regrid_def split: if_splits)
  note v = assms [unfolded fill_and_regrid_value [OF o sh]]
  have lt: "in_arr < length s" "mx < length s" "my < length s"
    using o by (auto dest: objs_Some)
  have r: "res = Suc (length s)" using v by simp
  obtain x A where s': "s' = s @ [x, NdArray A]" using v by auto
  have "take (length s) s' = s" using s' by simp
  moreover have "objs s' in_arr = objs s in_arr" "objs s' mx = objs s mx" "objs s' my = objs s my"
    using s' lt by (simp_all add: objs_def nth_append)
  moreover have "objs s res = None" using r by (simp add: objs_def)
  moreover have "objs s' res = Some (NdArray A)" using r s' by (simp add: objs_def nth_append)
  ultimately show ?thesis by blast
qed

lemmas regrid_defs = fill_and_regrid_def alloc_def set_data_def objs_def Grid2D_def bivariate_def
  bivariate_point_def inside_def lat_inside_def returned_def shape_def

text \<open>
  C6 as stated fails. The target point lies off the source grid, and the call returns the
  array whose only cell is NaN.
\<close>

theorem zero_overlap_counterexample:
  "zero_overlap lib_plain da_unit [[Fin 50]] [[Fin 60]] \<and>
   returned (fill_and_regrid lib_plain store_far 0 1 2) = Inr (Some (NdArray [[NaN]]))"
  by (simp add: zero_overlap_def regrid_defs store_far_def da_unit_def lib_plain_def Let_def)

section \<open>The batch driver: the first failure\<close>

lemma months_loop_prefix:
  "months_loop env r nm roi ms saved0 = (outcome, saved) \<Longrightarrow>
   \<exists>fs. saved = saved0 @ fs \<and> length fs \<le> length ms \<and>
        map (process_unit env r nm roi) (take (length fs) ms) = map Inr fs \<and>
        (case outcome of
           None \<Rightarrow> length fs = length ms
         | Some e \<Rightarrow> length fs < length ms \<and> process_unit env r nm roi (ms ! length fs) = Inl e)"
proof (induction ms arbitrary: saved0)
  case Nil
  then show ?case by auto
next
  case (Cons m ms)
  show ?case
  proof (cases "process_unit env r nm roi m")
    case (Inl e)
    with Cons.prems have "outcome = Some e" "saved = saved0" by auto
    with Inl show ?thesis by auto
  next
    case (Inr f)
    with Cons.prems have "months_loop env r nm roi ms (saved0 @ [f]) = (outcome, saved)" by simp
    from Cons.IH [OF this] obtain fs where fs: "saved = (saved0 @ [f]) @ fs" "length fs \<le> length ms"
      "map (process_unit env r nm roi) (take (length fs) ms) = map Inr fs"
      "case outcome of None \<Rightarrow> length fs = length ms
       | Some e \<Rightarrow> length fs < length ms \<and> process_unit env r nm roi (ms ! length fs) = Inl e"
      by blast
    have "saved = saved0 @ (f # fs)" using fs(1) by simp
    moreover have "length (f # fs) \<le> length (m # ms)" using fs(2) by simp
    moreover have "map (process_unit env r nm roi) (take (length (f # fs)) (m # ms)) = map Inr (f # fs)"
      using fs(3) Inr by simp
    moreover have "case outcome of None \<Rightarrow> length (f # fs) = length (m # ms)
       | Some e \<Rightarrow> length (f # fs) < length (m # ms) \<and>
           process_unit env r nm roi ((m # ms) ! length (f # fs)) = Inl e"
      using fs(4) by (cases outcome) auto
    ultimately show ?thesis by blast
  qed
qed

lemma units_Cons: "units (r # rs) months = map (Pair r) months @ units rs months"
  by (simp add: units_def)

lemma unit_outcome_known:
  "map_of REGION_LOOKUP r = Some (nm, roi) \<Longrightarrow>
   map (unit_outcome env) (map (Pair r) ms) = map (process_unit env r nm roi) ms"
  by (simp add: unit_outcome_def)

lemma regions_loop_prefix:
  "set regions \<subseteq> fst ` set REGION_LOOKUP \<Longrightarrow>
   regions_loop env regions months saved0 = (outcome, saved) \<Longrightarrow>
   \<exists>fs. saved = saved0 @ fs \<and> length fs \<le> length (units regions months) \<and>
        map (unit_outcome env) (take (length fs) (units regions months)) = map Inr fs \<and>
        (case outcome of
           None \<Rightarrow> length fs = length (units regions months)
         | Some e \<Rightarrow> length fs < length (units regions months) \<and>
             unit_outcome env (units regions months ! length fs) = Inl e)"
proof (induction regions arbitrary: saved0)
  case Nil
  then show ?case by (auto simp: units_def)
next
  case (Cons r rs)
  from Cons.prems(1) obtain nm roi where look: "map_of REGION_LOOKUP r = Some (nm, roi)"
    by (cases "map_of REGION_LOOKUP r") (auto simp: map_of_eq_None_iff)
  obtain o1 s1 where ml: "months_loop env r nm roi months saved0 = (o1, s1)"
    by (cases "months_loop env r nm roi months saved0") auto
  from months_loop_prefix [OF ml] obtain fs where fs: "s1 = saved0 @ fs" "length fs \<le> length months"
    "map (process_unit env r nm roi) (take (length fs) months) = map Inr fs"
    "case o1 of None \<Rightarrow> length fs = length months
     | Some e \<Rightarrow> length fs < length months \<and> process_unit env r nm roi (months ! length fs) = Inl e"
    by blast
  let ?us = "units (r # rs) months"
  have pre: "map (unit_outcome env) (take (length fs) ?us) = map Inr fs"
    using fs(2,3) unit_outcome_known [OF look, of env "take (length fs) months"]
    by (simp add: units_Cons take_map)
  show ?case
  proof (cases o1)
    case (Some e)
    with Cons.prems(2) look ml have r: "outcome = Some e" "saved = s1" by auto
    from Some fs(4) have lt: "length fs < length months"
      and fail: "process_unit env r nm roi (months ! length fs) = Inl e" by auto
    have "?us ! length fs = (r, months ! length fs)"
      using lt by (simp add: units_Cons nth_append)
    then have "unit_outcome env (?us ! length fs) = Inl e"
      using fail look by (simp add: unit_outcome_def)
    moreover have "length fs < length ?us" using lt by (simp add: units_Cons)
    ultimately show ?thesis using r fs(1) pre by auto
  next
    case None
    with fs(4) have full: "length fs = length months" by simp
    from None Cons.prems(2) look ml have "regions_loop env rs months s1 = (outcome, saved)" by simp
    from Cons.IH [OF _ this] Cons.prems(1) obtain gs where gs: "saved = s1 @ gs"
      "length gs \<le> length (units rs months)"
      "map (unit_outcome env) (take (length gs) (units rs months)) = map Inr gs"
      "case outcome of None \<Rightarrow> length gs = length (units rs months)
       | Some e \<Rightarrow> length gs < length (units rs months) \<and>
           unit_outcome env (units rs months ! length gs) = Inl e"
      by auto
    have first: "map (unit_outcome env) (map (Pair r) months) = map Inr fs"
      using fs(3) full unit_outcome_known [OF look, of env months] by simp
    have "saved = saved0 @ (fs @ gs)" using gs(1) fs(1) by simp
    moreover have "length (fs @ gs) \<le> length ?us" using gs(2) full by (simp add: units_Cons)
    moreover have "map (unit_outcome env) (take (length (fs @ gs)) ?us) = map Inr (fs @ gs)"
      using first gs(3) full by (simp add: units_Cons)
    moreover have "case outcome of None \<Rightarrow> length (fs @ gs) = length ?us
       | Some e \<Rightarrow> length (fs @ gs) < length ?us \<and> unit_outcome env (?us ! length (fs @ gs)) = Inl e"
      using gs(4) full by (cases outcome) (auto simp: units_Cons nth_append)
    ultimately show ?thesis by blast
  qed
qed

text \<open>
  C7 (as amended). In a run over known regions, the files written are the results of the
  first units in loop order, one for each, all of them successful. When the run ends
  without an error there is one file for every unit. When it ends with an error, that error
  is the failure of the next unit, and no unit after that one was processed: the first
  failure ends the whole run, and the outcome is that single error, not a summary for each
  unit.
\<close>
theorem first_failure_ends_run:
  assumes "set regions \<subseteq> fst ` set REGION_LOOKUP" "main env regions months = (outcome, saved)"
  shows "length saved \<le> length (units regions months) \<and>
         map (unit_outcome env) (take (length saved) (units regions months)) = map Inr saved \<and>
         (case outcome of
            None \<Rightarrow> length saved = length (units regions months)
          | Some e \<Rightarrow> length saved < length (units regions months) \<and>
              unit_outcome env (units regions months ! length saved) = Inl e)"
  using regions_loop_prefix [OF assms(1) assms(2) [unfolded main_def]] by simp

text \<open>
  C7 as stated fails. Month 01 fails, month 02 on its own succeeds, and the run over both
  ends with the error of month 01 and no file: month 02 is never processed.
\<close>

theorem batch_isolation_counterexample:
  "unit_outcome tiles_fail_first (''EuropeMed'', ''01'') = Inl OSError \<and>
   unit_outcome tiles_fail_first (''EuropeMed'', ''02'') = Inr ''EuropeMed02'' \<and>
   main tiles_fail_first [''EuropeMed''] [''01'', ''02''] = (Some OSError, [])"
  by (simp add: main_def unit_outcome_def process_unit_def tiles_fail_first_def REGION_LOOKUP_def)

theorem first_failure_ends_run_witness:
  "set [''EuropeMed''] \<subseteq> fst ` set REGION_LOOKUP \<and>
   main tiles_fail_first [''EuropeMed''] [''02'', ''01'', ''03''] = (Some OSError, [''EuropeMed02'']) \<and>
   unit_outcome tiles_fail_first (units [''EuropeMed''] [''02'', ''01'', ''03''] ! 1) = Inl OSError"
proof -
  have h1: "set [''EuropeMed''] \<subseteq> fst ` set REGION_LOOKUP"
    by (simp add: REGION_LOOKUP_def)
  have h2: "main tiles_fail_first [''EuropeMed''] [''02'', ''01'', ''03''] = (Some OSError, [''EuropeMed02''])"
    by (simp add: main_def process_unit_def tiles_fail_first_def REGION_LOOKUP_def)
  show ?thesis
    using first_failure_ends_run [OF h1 h2] h1 h2 by simp
qed

section \<open>The theorems at concrete inputs\<close>

lemma same_shape_one: "same_shape [[Fin b]] kd_one" "same_shape [[Fin b]] kd_zero"
  "same_shape [[Fin b]] kd_thousand" "same_shape [[Fin b]] kd_tiny"
  by (simp_all add: same_shape_def kd_one_def kd_zero_def kd_thousand_def kd_tiny_def shape_def)

lemma cell_of_one: "cell_of [[x]] 0 0"
  by (simp add: cell_of_def)

lemmas shape_11 = same_shape_one(1) [of 1]
lemmas shape_20 = same_shape_one(2) [of 2]
lemmas cell_1 = cell_of_one [of "Fin 1"]
lemmas cell_2 = cell_of_one [of "Fin 2"]

lemma total_mixed: "sfce_irr_total_uW_m2 cfg_mixed [[Fin 1]] ! 0 ! 0 = Fin 0"
  by (simp add: cfg_mixed_def irr_defs array_defs)

lemma total_unit: "sfce_irr_total_uW_m2 cfg_unit [[Fin 2]] ! 0 ! 0 = Fin 6"
  by (simp add: cfg_unit_def irr_defs array_defs)

lemma log_expression_mixed: "Kd_log_expression cfg_mixed [[Fin 1]] kd_one ! 0 ! 0 = NaN"
  using total_mixed
  by (simp add: at_log_expression same_shape_one cell_of_one at_total cell_log_expression_zero_total)

lemma log_expression_unit:
  assumes "fl_exp (Fin (- k)) = Fin w"
  shows "cell_log_expression cfg_unit (Fin 2) (Fin k) (Fin k) (Fin k) = Fin w"
proof -
  have t: "cell_total cfg_unit (Fin 2) = Fin 6"
    using total_unit by (simp add: at_total cell_of_one)
  show ?thesis using t _ assms by (rule cell_log_expression_equal) simp
qed

lemma Kd_total_log_unit_zero: "Kd_total_log cfg_unit [[Fin 2]] kd_zero ! 0 ! 0 = Fin 0"
proof -
  have "cell_log_expression cfg_unit (Fin 2) (Fin 0) (Fin 0) (Fin 0) = Fin 1"
    using log_expression_unit [of 0 1] fl_exp_zero by simp
  moreover have "kd_blue kd_zero ! 0 ! 0 = Fin 0" "kd_green kd_zero ! 0 ! 0 = Fin 0"
    "kd_red kd_zero ! 0 ! 0 = Fin 0"
    by (simp_all add: kd_zero_def)
  ultimately have "Kd_log_expression cfg_unit [[Fin 2]] kd_zero ! 0 ! 0 = Fin 1"
    using at_log_expression [OF shape_20 cell_2, where cfg = cfg_unit]
    by simp
  then show ?thesis
    by (simp add: at_Kd_total_log same_shape_one cell_of_one guard_log_def)
qed

theorem log_argument_guarded_witness:
  "same_shape [[Fin 1]] kd_one \<and> cell_of [[Fin 1 :: fl]] 0 0 \<and>
   fl_isnan (Kd_log_expression cfg_mixed [[Fin 1]] kd_one ! 0 ! 0) \<and>
   Kd_total cfg_mixed [[Fin 1]] kd_one ! 0 ! 0 = NaN \<and>
   fl_le (Kd_total_log cfg_unit [[Fin 2]] kd_zero ! 0 ! 0) (Fin 0) \<and>
   Kd_total cfg_unit [[Fin 2]] kd_zero ! 0 ! 0 = NaN"
  using log_argument_guarded [OF shape_11 cell_1, where cfg = cfg_mixed]
    log_argument_guarded [OF shape_20 cell_2, where cfg = cfg_unit]
    shape_11 cell_1 log_expression_mixed Kd_total_log_unit_zero
  by simp

theorem Kd_total_positive_or_nan_witness:
  "same_shape [[Fin 1]] kd_one \<and> cell_of [[Fin 1 :: fl]] 0 0 \<and>
   Kd_total cfg_mixed [[Fin 1]] kd_one ! 0 ! 0 = NaN \<and>
   z_thresh_sea cfg_mixed [[Fin 1]] kd_one ! 0 ! 0 = NaN"
proof -
  have k: "Kd_total cfg_mixed [[Fin 1]] kd_one ! 0 ! 0 = NaN"
    using log_expression_mixed
    by (simp add: at_Kd_total at_Kd_total_log same_shape_one cell_of_one guard_NaN)
  show ?thesis
    using Kd_total_positive_or_nan [OF shape_11 cell_1, where cfg = cfg_mixed] k shape_11 cell_1
    by simp
qed



theorem landmask_overrides_witness:
  "same_shape [[Fin 2, Fin 2]] kd_pair \<and> shape [[255 :: int, 0]] = shape [[Fin 2, Fin 2]] \<and>
   (\<exists>Z. calculate_z_thresh cfg_unit [[255, 0]] [[Fin 2, Fin 2]] kd_pair = Inr Z \<and>
        Z ! 0 ! 0 = z_thresh_sea cfg_unit [[Fin 2, Fin 2]] kd_pair ! 0 ! 0 \<and>
        Z ! 0 ! 1 = NaN \<and>
        apply_landmask [[255, 0]] Z = Inr Z)"
proof -
  have h: "same_shape [[Fin 2, Fin 2]] kd_pair"
    by (simp add: same_shape_def kd_pair_def shape_def)
  have s: "shape [[255 :: int, 0]] = shape [[Fin 2, Fin 2]]" by (simp add: shape_def)
  have c: "cell_of [[Fin 2, Fin 2]] 0 0" "cell_of [[Fin 2, Fin 2]] 0 1"
    by (simp_all add: cell_of_def)
  from landmask_overrides [OF h s, of cfg_unit]
  obtain Z where z: "calculate_z_thresh cfg_unit [[255, 0]] [[Fin 2, Fin 2]] kd_pair = Inr Z"
    "\<forall>i j. cell_of [[Fin 2, Fin 2]] i j \<longrightarrow>
       ([[255, 0]] ! i ! j \<noteq> (255 :: int) \<longrightarrow> Z ! i ! j = NaN) \<and>
       ([[255, 0]] ! i ! j = (255 :: int) \<longrightarrow>
          Z ! i ! j = z_thresh_sea cfg_unit [[Fin 2, Fin 2]] kd_pair ! i ! j)"
    "apply_landmask [[255, 0]] Z = Inr Z"
    by blast
  have "Z ! 0 ! 0 = z_thresh_sea cfg_unit [[Fin 2, Fin 2]] kd_pair ! 0 ! 0"
    using z(2) c(1) by fastforce
  moreover have "Z ! 0 ! 1 = NaN"
    using z(2) c(2) by fastforce
  ultimately show ?thesis using z(1,3) h s by blast
qed

theorem mask_falchi_threshold_witness:
  "cell_of [[Fin 1, Fin 2]] 0 0 \<and> cell_of [[Fin 1, Fin 2]] 0 1 \<and>
   mask_falchi cfg_unit [[Fin 1, Fin 2]] ! 0 ! 0 = NaN \<and>
   mask_falchi cfg_unit [[Fin 1, Fin 2]] ! 0 ! 1 = Fin 2"
proof -
  have c: "cell_of [[Fin 1, Fin 2]] 0 0" "cell_of [[Fin 1, Fin 2]] 0 1"
    by (simp_all add: cell_of_def)
  have v: "[[Fin 1, Fin 2]] ! 0 ! 0 = Fin 1" "[[Fin 1, Fin 2]] ! 0 ! 1 = Fin 2" by simp_all
  have t: "FALCHI_MASK_THRESHOLD cfg_unit = Fin 1" by (simp add: cfg_unit_def)
  show ?thesis
    using mask_falchi_threshold [OF c(1) v(1), of cfg_unit]
      mask_falchi_threshold [OF c(2) v(2), of cfg_unit] c t
    by simp
qed

theorem get_kd_data_fill_witness:
  "cell_of (kd_blue kd_file) 0 0 \<and> cell_of (kd_blue kd_file) 0 1 \<and>
   kd_dtype kd_file = Float32 \<and> KD_FILLVAL cfg_unit = Fin (- 999) \<and>
   astype (kd_dtype kd_file) (KD_FILLVAL cfg_unit) = Fin (- 999) \<and>
   kd_blue (get_kd_data cfg_unit kd_file) ! 0 ! 0 = NaN \<and>
   kd_blue (get_kd_data cfg_unit kd_file) ! 0 ! 1 = Fin 1"
proof -
  have c: "cell_of (kd_blue kd_file) 0 0" "cell_of (kd_blue kd_file) 0 1"
    by (simp_all add: cell_of_def kd_file_def)
  have v: "kd_blue kd_file ! 0 ! 0 = Fin (- 999)" "kd_blue kd_file ! 0 ! 1 = Fin 1"
    "KD_FILLVAL cfg_unit = Fin (- 999)" "kd_dtype kd_file = Float32"
    by (simp_all add: kd_file_def cfg_unit_def)
  have a: "astype (kd_dtype kd_file) (KD_FILLVAL cfg_unit) = Fin (- 999)"
    using v(3,4) round_f32_999 by simp
  show ?thesis
    using get_kd_data_fill [where K = kd_file and cfg = cfg_unit and i = 0 and j = 0]
      get_kd_data_fill [where K = kd_file and cfg = cfg_unit and i = 0 and j = 1] c v a
    by simp
qed

lemma store_far_objs:
  "objs store_far 0 = Some (DataArray da_unit)" "objs store_far 1 = Some (NdArray [[Fin 50]])"
  "objs store_far 2 = Some (NdArray [[Fin 60]])"
  by (simp_all add: store_far_def objs_def)

lemma zero_overlap_far: "zero_overlap lib_plain da_unit [[Fin 50]] [[Fin 60]]"
  by (simp add: zero_overlap_def inside_def lat_inside_def da_unit_def lib_plain_def)

theorem zero_overlap_gives_nan_grid_witness:
  "objs store_far 0 = Some (DataArray da_unit) \<and> zero_overlap lib_plain da_unit [[Fin 50]] [[Fin 60]] \<and>
   (\<exists>A. returned (fill_and_regrid lib_plain store_far 0 1 2) = Inr (Some (NdArray A)) \<and> all_nan A)"
proof -
  have s: "shape [[Fin 50]] = shape [[Fin 60]]" by (simp add: shape_def)
  show ?thesis
    using zero_overlap_gives_nan_grid [OF store_far_objs s zero_overlap_far]
      store_far_objs(1) zero_overlap_far
    by simp
qed

theorem fill_and_regrid_frame_witness:
  "fill_and_regrid lib_plain store_far 0 1 2 =
     Inr (4, store_far @ [DataArray da_unit, NdArray [[NaN]]]) \<and>
   take (length store_far) (store_far @ [DataArray da_unit, NdArray [[NaN]]]) = store_far \<and>
   objs (store_far @ [DataArray da_unit, NdArray [[NaN]]]) 0 = objs store_far 0 \<and>
   objs store_far 4 = None \<and>
   objs (store_far @ [DataArray da_unit, NdArray [[NaN]]]) 4 = Some (NdArray [[NaN]])"
proof -
  have r: "fill_and_regrid lib_plain store_far 0 1 2 =
     Inr (4, store_far @ [DataArray da_unit, NdArray [[NaN]]])"
    by (simp add: regrid_defs store_far_def da_unit_def lib_plain_def Let_def)
  have "objs (store_far @ [DataArray da_unit, NdArray [[NaN]]]) 4 = Some (NdArray [[NaN]])"
    by (simp add: objs_def store_far_def)
  then show ?thesis
    using fill_and_regrid_frame [OF r] r by simp
qed

end
